theory Spec2Isabelle
  imports Complex_Main "HOL-Library.AList" "HOL-Library.Char_ord" "HOL-Library.List_Lexorder"
    "HOL-Library.Product_Lexorder"
begin
section \<open>Data model\<close>

text \<open>
  A cell of a data frame is a missing value (\<open>NaN\<close>), a 64-bit integer, a finite float,
  an infinite float (\<open>Infty True\<close> is \<open>+inf\<close>), a string or a boolean. Finite floats are
  rationals: rounding is not modelled. An integer cell holds a value of the signed
  64-bit range.
\<close>

datatype cell = NaN | Intg int | Flt rat | Infty bool | Str string | Bool bool

text \<open>
  A data frame is its number of rows (the index, taken to be positional and unique) and
  its columns in order; a well-formed frame has distinct labels and \<open>nrows\<close> cells in
  every column.
\<close>

record table =
  nrows :: nat
  cols :: "(string \<times> cell list) list"

text \<open>The exceptions the modelled code and library calls raise.\<close>

datatype error = KeyError string | TypeError | ValueError | AttributeError | OverflowError

definition columns :: "table \<Rightarrow> string list" where
  "columns df = map fst (cols df)"

definition getcol :: "table \<Rightarrow> string \<Rightarrow> cell list option" where
  "getcol df c = map_of (cols df) c"

definition wf_table :: "table \<Rightarrow> bool" where
  "wf_table df = (distinct (columns df) \<and> list_all (\<lambda>p. length (snd p) = nrows df) (cols df))"

text \<open>
  \<^verbatim>\<open>out[c] = values\<close>: an existing column is replaced where it stands, a new one is
  appended. \<^verbatim>\<open>out[c] = scalar\<close> broadcasts the scalar over the index.
\<close>

definition setitem :: "table \<Rightarrow> string \<Rightarrow> cell list \<Rightarrow> table" where
  "setitem df c vs = df\<lparr>cols := AList.update c vs (cols df)\<rparr>"

definition setitem_scalar :: "table \<Rightarrow> string \<Rightarrow> cell \<Rightarrow> table" where
  "setitem_scalar df c v = setitem df c (replicate (nrows df) v)"

text \<open>\<^verbatim>\<open>df[present]\<close> with a list of labels that all exist: the sub-frame, same index.\<close>

definition getitem_cols :: "table \<Rightarrow> string list \<Rightarrow> table" where
  "getitem_cols df present =
     df\<lparr>cols := map (\<lambda>c. (c, case getcol df c of Some vs \<Rightarrow> vs | None \<Rightarrow> [])) present\<rparr>"

text \<open>\<^verbatim>\<open>out[c]\<close> for a label known to exist.\<close>

definition column :: "table \<Rightarrow> string \<Rightarrow> cell list" where
  "column df c = (case getcol df c of Some s \<Rightarrow> s | None \<Rightarrow> [])"

section \<open>The library's column operations\<close>

text \<open>
  The type of a column follows from its cells: 64-bit integers, floats (with missing
  values and infinities), booleans, or Python objects for anything mixed or textual.
\<close>

datatype dtype = I64 | F64 | B | Obj

fun is_int :: "cell \<Rightarrow> bool" where
  "is_int (Intg i) = True"
| "is_int x = False"

fun is_floatlike :: "cell \<Rightarrow> bool" where
  "is_floatlike NaN = True"
| "is_floatlike (Flt q) = True"
| "is_floatlike (Infty s) = True"
| "is_floatlike x = False"

fun is_bool :: "cell \<Rightarrow> bool" where
  "is_bool (Bool b) = True"
| "is_bool x = False"

fun is_str :: "cell \<Rightarrow> bool" where
  "is_str (Str s) = True"
| "is_str x = False"

definition dtype_of :: "cell list \<Rightarrow> dtype" where
  "dtype_of s =
     (if list_all is_int s then I64
      else if list_all is_floatlike s then F64
      else if list_all is_bool s then B
      else Obj)"

text \<open>Running a fallible operation over a column stops at the first exception.\<close>

fun map_err :: "('a \<Rightarrow> error + 'b) \<Rightarrow> 'a list \<Rightarrow> error + 'b list" where
  "map_err f [] = Inr []"
| "map_err f (x # xs) =
     (case f x of Inl e \<Rightarrow> Inl e
      | Inr y \<Rightarrow> (case map_err f xs of Inl e \<Rightarrow> Inl e | Inr ys \<Rightarrow> Inr (y # ys)))"

text \<open>
  \<^verbatim>\<open>x >= y\<close> and \<^verbatim>\<open>x <= y\<close> for a cell and an integer: a missing value compares false,
  a boolean compares as 0 or 1, and comparing a string with an integer raises
  \<^verbatim>\<open>TypeError\<close>.
\<close>

fun ge_cell :: "int \<Rightarrow> cell \<Rightarrow> error + bool" where
  "ge_cell y NaN = Inr False"
| "ge_cell y (Intg i) = Inr (y \<le> i)"
| "ge_cell y (Flt q) = Inr (of_int y \<le> q)"
| "ge_cell y (Infty s) = Inr s"
| "ge_cell y (Bool b) = Inr (y \<le> of_bool b)"
| "ge_cell y (Str s) = Inl TypeError"

fun le_cell :: "int \<Rightarrow> cell \<Rightarrow> error + bool" where
  "le_cell y NaN = Inr False"
| "le_cell y (Intg i) = Inr (i \<le> y)"
| "le_cell y (Flt q) = Inr (q \<le> of_int y)"
| "le_cell y (Infty s) = Inr (\<not> s)"
| "le_cell y (Bool b) = Inr (of_bool b \<le> y)"
| "le_cell y (Str s) = Inl TypeError"

text \<open>
  \<^verbatim>\<open>Series.between(lower, upper, inclusive="both")\<close> is \<^verbatim>\<open>(s >= lower) & (s <= upper)\<close>.
\<close>

definition between :: "cell list \<Rightarrow> int \<Rightarrow> int \<Rightarrow> error + bool list" where
  "between s lower upper =
     (case map_err (ge_cell lower) s of
        Inl e \<Rightarrow> Inl e
      | Inr lmask \<Rightarrow>
          (case map_err (le_cell upper) s of
             Inl e \<Rightarrow> Inl e
           | Inr rmask \<Rightarrow> Inr (map2 (\<and>) lmask rmask)))"

text \<open>
  \<^verbatim>\<open>pd.to_numeric(s, errors="coerce")\<close>. The library's text-to-number reader is not part
  of the repository; it is the parameter \<open>parse\<close>, which gives the integer, the finite
  float or the infinity it reads, and a string it rejects becomes missing. When the
  result holds a float or a missing value, its integers and booleans become floats;
  when it holds integers, its booleans become integers; a column of booleans alone is
  returned as it is.
\<close>

datatype parsed = PInt int | PFlt rat | PInf bool

fun to_numeric_cell :: "(string \<Rightarrow> parsed option) \<Rightarrow> cell \<Rightarrow> cell" where
  "to_numeric_cell parse (Str s) =
     (case parse s of
        None \<Rightarrow> NaN
      | Some (PInt i) \<Rightarrow> Intg i
      | Some (PFlt q) \<Rightarrow> Flt q
      | Some (PInf b) \<Rightarrow> Infty b)"
| "to_numeric_cell parse x = x"

fun as_float :: "cell \<Rightarrow> cell" where
  "as_float (Intg i) = Flt (of_int i)"
| "as_float (Bool b) = Flt (of_bool b)"
| "as_float x = x"

fun bool_as_int :: "cell \<Rightarrow> cell" where
  "bool_as_int (Bool b) = Intg (of_bool b)"
| "bool_as_int x = x"

definition to_numeric :: "(string \<Rightarrow> parsed option) \<Rightarrow> cell list \<Rightarrow> cell list" where
  "to_numeric parse s =
     (let r = map (to_numeric_cell parse) s in
      if list_ex is_floatlike r then map as_float r
      else if list_ex is_int r then map bool_as_int r
      else r)"

text \<open>
  \<^verbatim>\<open>s.fillna(v)\<close> with an integer \<open>v\<close>: in a float column the fill value is the float
  \<open>v\<close>, elsewhere the integer.
\<close>

definition fillna :: "cell list \<Rightarrow> int \<Rightarrow> cell list" where
  "fillna s v =
     map (\<lambda>x. if x = NaN then (if list_all is_floatlike s then Flt (of_int v) else Intg v) else x) s"

text \<open>
  Truncation towards zero, and the cast of a float to a 64-bit integer: a float outside
  the 64-bit range is cast without an error to the least 64-bit integer.
\<close>

definition trunc :: "rat \<Rightarrow> int" where
  "trunc q = (if 0 \<le> q then \<lfloor>q\<rfloor> else \<lceil>q\<rceil>)"

definition in_int64 :: "int \<Rightarrow> bool" where
  "in_int64 i = (- (2 ^ 63) \<le> i \<and> i < 2 ^ 63)"

definition cast64 :: "rat \<Rightarrow> int" where
  "cast64 q = (if in_int64 (trunc q) then trunc q else - (2 ^ 63))"

text \<open>
  \<^verbatim>\<open>s.astype(int)\<close>: a missing or infinite value raises \<^verbatim>\<open>ValueError\<close>, a float is
  cast, a boolean becomes 0 or 1. Text does not reach this cast in the repository (it
  is applied to what \<^verbatim>\<open>to_numeric\<close> returned); it is rejected here.
\<close>

fun astype_int_cell :: "cell \<Rightarrow> error + cell" where
  "astype_int_cell (Intg i) = Inr (Intg i)"
| "astype_int_cell (Flt q) = Inr (Intg (cast64 q))"
| "astype_int_cell (Bool b) = Inr (Intg (of_bool b))"
| "astype_int_cell NaN = Inl ValueError"
| "astype_int_cell (Infty s) = Inl ValueError"
| "astype_int_cell (Str s) = Inl ValueError"

definition astype_int :: "cell list \<Rightarrow> error + cell list" where
  "astype_int s = map_err astype_int_cell s"

section \<open>cleaning.py\<close>

definition DEFAULT_COLUMNS :: "string list" where
  "DEFAULT_COLUMNS =
     [''anio'', ''idpeligro'', ''idprovincia'', ''provincia'', ''numeromediospersonal'',
      ''numeromediospesados'', ''numeromediosaereos'', ''perdidassuperficiales'', ''idcausa'']"

definition select_columns :: "table \<Rightarrow> string list option \<Rightarrow> table" where
  "select_columns df columns_arg =
     (let cs = (case columns_arg of Some c \<Rightarrow> c | None \<Rightarrow> DEFAULT_COLUMNS);
          present = filter (\<lambda>c. c \<in> set (columns df)) cs
      in getitem_cols df present)"

definition flag_intentional :: "table \<Rightarrow> string \<Rightarrow> string \<Rightarrow> int \<Rightarrow> int \<Rightarrow> error + table" where
  "flag_intentional df causa_col out_col lower upper =
     (let out = df in
      case getcol out causa_col of
        Some s \<Rightarrow>
          (case between s lower upper of
             Inl e \<Rightarrow> Inl e
           | Inr m \<Rightarrow> Inr (setitem out out_col (map Bool m)))
      | None \<Rightarrow> Inr (setitem_scalar out out_col (Bool False)))"

definition coerce_types :: "(string \<Rightarrow> parsed option) \<Rightarrow> table \<Rightarrow> error + table" where
  "coerce_types parse df =
     (let out = df in
      case (if ''idpeligro'' \<in> set (columns out)
            then (case astype_int (fillna (to_numeric parse (column out ''idpeligro'')) (- 1)) of
                    Inl e \<Rightarrow> Inl e
                  | Inr v \<Rightarrow> Inr (setitem out ''idpeligro'' v))
            else Inr out) of
        Inl e \<Rightarrow> Inl e
      | Inr out \<Rightarrow>
     (case (if ''idprovincia'' \<in> set (columns out)
            then (case astype_int (fillna (to_numeric parse (column out ''idprovincia'')) (- 1)) of
                    Inl e \<Rightarrow> Inl e
                  | Inr v \<Rightarrow> Inr (setitem out ''idprovincia'' v))
            else Inr out) of
        Inl e \<Rightarrow> Inl e
      | Inr out \<Rightarrow>
          (let out = (if ''perdidassuperficiales'' \<in> set (columns out)
                      then setitem out ''perdidassuperficiales''
                             (to_numeric parse (column out ''perdidassuperficiales''))
                      else out);
               out = fold (\<lambda>col out.
                             if col \<in> set (columns out)
                             then setitem out col (fillna (to_numeric parse (column out col)) 0)
                             else out)
                          [''numeromediospersonal'', ''numeromediospesados'', ''numeromediosaereos'']
                          out
           in Inr out)))"

definition add_hectareas_alias :: "table \<Rightarrow> string \<Rightarrow> string \<Rightarrow> table" where
  "add_hectareas_alias df source target =
     (let out = df in
      if source \<in> set (columns out)
      then setitem out target (fillna (column out source) 0)
      else setitem_scalar out target (Intg 0))"

definition prepare_wildfires ::
  "(string \<Rightarrow> parsed option) \<Rightarrow> table \<Rightarrow> string list option \<Rightarrow> error + table" where
  "prepare_wildfires parse df_raw columns_arg =
     (let df = select_columns df_raw columns_arg in
      case flag_intentional df ''idcausa'' ''intencionado'' 400 499 of
        Inl e \<Rightarrow> Inl e
      | Inr df \<Rightarrow>
          (case coerce_types parse df of
             Inl e \<Rightarrow> Inl e
           | Inr df \<Rightarrow> Inr (add_hectareas_alias df ''perdidassuperficiales'' ''hectareas_quemadas'')))"

section \<open>Row selection, ordering and grouping in the library\<close>

text \<open>\<^verbatim>\<open>df.iloc[idx]\<close>: the rows at the given positions, in the given order.\<close>

definition take_rows :: "table \<Rightarrow> nat list \<Rightarrow> table" where
  "take_rows df idx = \<lparr>nrows = length idx, cols = map (\<lambda>(c, vs). (c, map (nth vs) idx)) (cols df)\<rparr>"

text \<open>\<^verbatim>\<open>df[mask]\<close> with a boolean mask over the index.\<close>

definition getitem_mask :: "table \<Rightarrow> bool list \<Rightarrow> table" where
  "getitem_mask df m = take_rows df (filter (\<lambda>i. m ! i) [0..<nrows df])"

text \<open>
  \<^verbatim>\<open>df.head(n)\<close>: the first \<open>n\<close> rows; a negative \<open>n\<close> leaves out the last \<open>-n\<close> rows.
\<close>

definition head :: "table \<Rightarrow> int \<Rightarrow> table" where
  "head df n =
     take_rows df (take (if 0 \<le> n then nat n else nat (int (nrows df) + n)) [0..<nrows df])"

text \<open>\<^verbatim>\<open>df.rename(columns={old: new})\<close>.\<close>

definition rename :: "table \<Rightarrow> string \<Rightarrow> string \<Rightarrow> table" where
  "rename df old new = df\<lparr>cols := map (\<lambda>(c, vs). (if c = old then new else c, vs)) (cols df)\<rparr>"

text \<open>
  The order of values: \<open>-inf\<close>, the finite numbers by value (a boolean is 0 or 1),
  \<open>+inf\<close>, then strings by code point (which is the byte order of their UTF-8 form).
  Two values that are not missing are equal in Python exactly when they have the same
  place in this order; a missing value equals nothing.
\<close>

fun sort_code :: "cell \<Rightarrow> nat \<times> rat \<times> string" where
  "sort_code (Infty False) = (0, 0, [])"
| "sort_code (Intg i) = (1, of_int i, [])"
| "sort_code (Flt q) = (1, q, [])"
| "sort_code (Bool b) = (1, of_bool b, [])"
| "sort_code (Infty True) = (2, 0, [])"
| "sort_code (Str s) = (3, 0, s)"
| "sort_code NaN = (4, 0, [])"

definition py_eq :: "cell \<Rightarrow> cell \<Rightarrow> bool" where
  "py_eq x y = (x \<noteq> NaN \<and> y \<noteq> NaN \<and> sort_code x = sort_code y)"

text \<open>
  The library's sort is a parameter \<open>argsort\<close>: given the keys it returns their positions
  in ascending order of the keys. Its default algorithm does not fix the order of equal
  keys, so nothing more is assumed of it than \<open>sorts_ascending\<close>. \<open>stable_argsort\<close> is
  one such sort, used to run examples.
\<close>

definition sorts_ascending :: "((nat \<times> rat \<times> string) list \<Rightarrow> nat list) \<Rightarrow> bool" where
  "sorts_ascending argsort =
     (\<forall>xs. distinct (argsort xs) \<and> set (argsort xs) = {0..<length xs} \<and>
           sorted (map (nth xs) (argsort xs)))"

definition stable_argsort :: "(nat \<times> rat \<times> string) list \<Rightarrow> nat list" where
  "stable_argsort xs = sort_key (nth xs) [0..<length xs]"

text \<open>
  The sorting permutation of \<^verbatim>\<open>sort_values\<close> (\<^verbatim>\<open>nargsort\<close>): missing keys go last; for a
  descending sort the other keys are reversed, sorted ascending and reversed again.
\<close>

definition nargsort ::
  "((nat \<times> rat \<times> string) list \<Rightarrow> nat list) \<Rightarrow> cell list \<Rightarrow> bool \<Rightarrow> nat list" where
  "nargsort argsort ks ascending =
     (let idx = [0..<length ks];
          non_nan_idx = filter (\<lambda>i. ks ! i \<noteq> NaN) idx;
          nan_idx = filter (\<lambda>i. ks ! i = NaN) idx;
          non_nan_idx = (if ascending then non_nan_idx else rev non_nan_idx);
          indexer = map (nth non_nan_idx) (argsort (map (\<lambda>i. sort_code (ks ! i)) non_nan_idx));
          indexer = (if ascending then indexer else rev indexer)
      in indexer @ nan_idx)"

text \<open>
  \<^verbatim>\<open>df.sort_values(by=label, ascending=...)\<close>: a label that no column carries raises
  \<^verbatim>\<open>KeyError\<close>, a label that several columns carry (possible after a renaming) raises
  \<^verbatim>\<open>ValueError\<close>, and keys among which text and numbers both occur cannot be compared
  (\<^verbatim>\<open>TypeError\<close>).
\<close>

definition sort_values ::
  "((nat \<times> rat \<times> string) list \<Rightarrow> nat list) \<Rightarrow> table \<Rightarrow> string \<Rightarrow> bool \<Rightarrow> error + table" where
  "sort_values argsort df by_col ascending =
     (case getcol df by_col of
        None \<Rightarrow> Inl (KeyError by_col)
      | Some ks \<Rightarrow>
          if 1 < length (filter (\<lambda>c. c = by_col) (columns df)) then Inl ValueError
          else if list_ex is_str ks \<and> list_ex (\<lambda>k. \<not> is_str k \<and> k \<noteq> NaN) ks then Inl TypeError
          else Inr (take_rows df (nargsort argsort ks ascending)))"

text \<open>
  Python's \<^verbatim>\<open>+\<close> on two values: text is concatenated with text and added to nothing
  else; a missing operand gives a missing sum; opposite infinities add up to a missing
  value; integers and booleans add as integers, and with a float as floats.
\<close>

fun fin :: "cell \<Rightarrow> rat" where
  "fin (Intg i) = of_int i"
| "fin (Flt q) = q"
| "fin (Bool b) = of_bool b"
| "fin x = 0"

fun whole :: "cell \<Rightarrow> int" where
  "whole (Intg i) = i"
| "whole (Bool b) = of_bool b"
| "whole x = 0"

fun num_add :: "cell \<Rightarrow> cell \<Rightarrow> cell" where
  "num_add NaN y = NaN"
| "num_add x NaN = NaN"
| "num_add (Infty s) (Infty t) = (if s = t then Infty s else NaN)"
| "num_add (Infty s) y = Infty s"
| "num_add x (Infty t) = Infty t"
| "num_add (Flt a) y = Flt (a + fin y)"
| "num_add x (Flt b) = Flt (fin x + b)"
| "num_add x y = Intg (whole x + whole y)"

fun py_add :: "cell \<Rightarrow> cell \<Rightarrow> error + cell" where
  "py_add (Str a) (Str b) = Inr (Str (a @ b))"
| "py_add (Str a) y = Inl TypeError"
| "py_add x (Str b) = Inl TypeError"
| "py_add x y = Inr (num_add x y)"

text \<open>Arithmetic in a column of 64-bit integers wraps around.\<close>

definition wrap64 :: "int \<Rightarrow> int" where
  "wrap64 i = (i + 2 ^ 63) mod 2 ^ 64 - 2 ^ 63"

text \<open>
  The sum of one group, by the type of the summed column. Missing values are skipped.
  An integer column sums with wrap-around and a boolean column counts its true cells;
  a float column sums from 0.0; a column of Python objects starts from its first value
  and adds the others with \<^verbatim>\<open>+\<close> (so text is concatenated, and text with a number raises
  \<^verbatim>\<open>TypeError\<close>), and a group without values sums to the integer 0.
\<close>

fun sum_from :: "cell \<Rightarrow> cell list \<Rightarrow> error + cell" where
  "sum_from acc [] = Inr acc"
| "sum_from acc (x # xs) = (case py_add acc x of Inl e \<Rightarrow> Inl e | Inr a \<Rightarrow> sum_from a xs)"

definition sum_group :: "dtype \<Rightarrow> cell list \<Rightarrow> error + cell" where
  "sum_group d vs =
     (case d of
        I64 \<Rightarrow> Inr (Intg (wrap64 (sum_list (map whole vs))))
      | B \<Rightarrow> Inr (Intg (sum_list (map whole vs)))
      | F64 \<Rightarrow> Inr (foldl num_add (Flt 0) (filter (\<lambda>x. x \<noteq> NaN) vs))
      | Obj \<Rightarrow>
          (case filter (\<lambda>x. x \<noteq> NaN) vs of
             [] \<Rightarrow> Inr (Intg 0)
           | x # xs \<Rightarrow> sum_from x xs))"

text \<open>
  \<^verbatim>\<open>df.groupby(by)[value_cols].sum().reset_index()\<close>: one row per distinct key that is
  not missing (the first of several equal keys stands for them), keys in ascending
  order; every value column is summed within its group. The callers in the repository
  pass value columns they have checked to exist. A value column with the label of the
  key column cannot be put back beside it (\<^verbatim>\<open>ValueError\<close>).
\<close>

function uniques :: "cell list \<Rightarrow> cell list" where
  "uniques [] = []"
| "uniques (x # xs) = x # uniques (filter (\<lambda>y. \<not> py_eq y x) xs)"
  by pat_completeness auto
termination
  by (relation "measure length") (auto simp: less_Suc_eq_le)

definition group_keys :: "cell list \<Rightarrow> cell list" where
  "group_keys ks = sort_key sort_code (uniques (filter (\<lambda>k. k \<noteq> NaN) ks))"

definition group_values :: "cell list \<Rightarrow> cell list \<Rightarrow> cell \<Rightarrow> cell list" where
  "group_values ks vs k = map snd (filter (\<lambda>p. py_eq (fst p) k) (zip ks vs))"

definition group_sums :: "cell list \<Rightarrow> cell list \<Rightarrow> cell list \<Rightarrow> error + cell list" where
  "group_sums ks keys vs = map_err (\<lambda>k. sum_group (dtype_of vs) (group_values ks vs k)) keys"

definition agg_column :: "table \<Rightarrow> cell list \<Rightarrow> cell list \<Rightarrow> string \<Rightarrow> error + string \<times> cell list" where
  "agg_column df ks keys c =
     (case getcol df c of
        None \<Rightarrow> Inl (KeyError (''Column not found: '' @ c))
      | Some vs \<Rightarrow> (case group_sums ks keys vs of Inl e \<Rightarrow> Inl e | Inr s \<Rightarrow> Inr (c, s)))"

definition groupby_sum :: "table \<Rightarrow> string \<Rightarrow> string list \<Rightarrow> error + table" where
  "groupby_sum df by_col value_cols =
     (case getcol df by_col of
        None \<Rightarrow> Inl (KeyError by_col)
      | Some ks \<Rightarrow>
          (let keys = group_keys ks in
           case map_err (agg_column df ks keys) value_cols of
             Inl e \<Rightarrow> Inl e
           | Inr agg \<Rightarrow>
               if by_col \<in> set (map fst agg) then Inl ValueError
               else Inr \<lparr>nrows = length keys, cols = (by_col, keys) # agg\<rparr>))"

text \<open>
  \<^verbatim>\<open>a + b\<close> on two columns of one frame, by their types: two boolean columns give the
  logical or; integer and boolean columns add as 64-bit integers; with a float column
  the sum is a float and a missing operand gives a missing sum; with a column of Python
  objects the cells are added with \<^verbatim>\<open>+\<close> wherever neither is missing.
\<close>

fun truth :: "cell \<Rightarrow> bool" where
  "truth (Bool b) = b"
| "truth x = False"

definition add_series :: "cell list \<Rightarrow> cell list \<Rightarrow> error + cell list" where
  "add_series a b =
     (let da = dtype_of a; db = dtype_of b in
      if da = B \<and> db = B then Inr (map2 (\<lambda>x y. Bool (truth x \<or> truth y)) a b)
      else if da = Obj \<or> db = Obj
      then map_err (\<lambda>p. if fst p = NaN \<or> snd p = NaN then Inr NaN else py_add (fst p) (snd p)) (zip a b)
      else if da = F64 \<or> db = F64 then Inr (map2 num_add a b)
      else Inr (map2 (\<lambda>x y. Intg (wrap64 (whole x + whole y))) a b))"

text \<open>
  The text of a list of labels inside an f-string, \<^verbatim>\<open>['a', 'b']\<close>; labels are taken to
  need no escaping.
\<close>

fun join_repr :: "string list \<Rightarrow> string" where
  "join_repr [] = []"
| "join_repr [c] = [CHR 0x27] @ c @ [CHR 0x27]"
| "join_repr (c # cs) = [CHR 0x27] @ c @ [CHR 0x27] @ '', '' @ join_repr cs"

definition repr_list :: "string list \<Rightarrow> string" where
  "repr_list cs = ''['' @ join_repr cs @ '']''"

section \<open>aggregates.py\<close>

definition RESOURCE_COLUMNS :: "string list" where
  "RESOURCE_COLUMNS = [''numeromediospersonal'', ''numeromediospesados'', ''numeromediosaereos'']"

definition add_total_resources :: "table \<Rightarrow> error + table" where
  "add_total_resources df =
     (let out = df;
          missing = filter (\<lambda>c. c \<notin> set (columns out)) RESOURCE_COLUMNS
      in if missing \<noteq> [] then Inl (KeyError (''Faltan columnas de recursos: '' @ repr_list missing))
         else
           (case add_series (column out ''numeromediospersonal'') (column out ''numeromediospesados'') of
              Inl e \<Rightarrow> Inl e
            | Inr s \<Rightarrow>
                (case add_series s (column out ''numeromediosaereos'') of
                   Inl e \<Rightarrow> Inl e
                 | Inr tot \<Rightarrow> Inr (setitem out ''total_medios'' tot))))"

definition group_by_province_for_map :: "table \<Rightarrow> string \<Rightarrow> error + table" where
  "group_by_province_for_map df province_col =
     (let out = df in
      case (if ''total_medios'' \<notin> set (columns out) then add_total_resources out else Inr out) of
        Inl e \<Rightarrow> Inl e
      | Inr out \<Rightarrow>
          (let missing = filter (\<lambda>c. c \<notin> set (columns out)) RESOURCE_COLUMNS
           in if missing \<noteq> []
              then Inl (KeyError (''Faltan columnas de recursos para agregar por provincia: ''
                                  @ repr_list missing))
              else groupby_sum out province_col
                     [''total_medios'', ''numeromediospersonal'', ''numeromediospesados'',
                      ''numeromediosaereos'']))"

definition aggregate_burned_area_by_year :: "table \<Rightarrow> string \<Rightarrow> string \<Rightarrow> string \<Rightarrow> error + table" where
  "aggregate_burned_area_by_year df year_col area_col fallback_area_col =
     (let out = df;
          col = (if area_col \<in> set (columns out) then area_col else fallback_area_col)
      in if col \<notin> set (columns out)
         then Inl (KeyError (''No se encontr'' @ [CHR 0xC3, CHR 0xB3] @ '' columna de ''
                             @ [CHR 0xC3, CHR 0xA1] @ ''rea quemada: '' @ area_col @ '' ni ''
                             @ fallback_area_col))
         else (case groupby_sum out year_col [col] of
                 Inl e \<Rightarrow> Inl e
               | Inr serie \<Rightarrow> Inr (rename serie col ''hectareas_quemadas'')))"

definition aggregate_resources_by_year :: "table \<Rightarrow> string \<Rightarrow> string list \<Rightarrow> error + table" where
  "aggregate_resources_by_year df year_col resource_cols =
     (let out = df;
          missing = filter (\<lambda>c. c \<notin> set (columns out)) resource_cols
      in if missing \<noteq> []
         then Inl (KeyError (''Faltan columnas de recursos para agregar por a''
                             @ [CHR 0xC3, CHR 0xB1] @ ''o: '' @ repr_list missing))
         else groupby_sum out year_col resource_cols)"

definition top_provinces_by_burned_area ::
  "((nat \<times> rat \<times> string) list \<Rightarrow> nat list) \<Rightarrow> table \<Rightarrow> int \<Rightarrow> string \<Rightarrow> string \<Rightarrow> string \<Rightarrow> bool
     \<Rightarrow> error + table" where
  "top_provinces_by_burned_area argsort df n province_col area_col fallback_area_col ascending =
     (let out = df;
          col = (if area_col \<in> set (columns out) then area_col else fallback_area_col)
      in if col \<notin> set (columns out)
         then Inl (KeyError (''No se encontr'' @ [CHR 0xC3, CHR 0xB3] @ '' columna de ''
                             @ [CHR 0xC3, CHR 0xA1] @ ''rea quemada: '' @ area_col @ '' ni ''
                             @ fallback_area_col))
         else (case groupby_sum out province_col [col] of
                 Inl e \<Rightarrow> Inl e
               | Inr agg \<Rightarrow>
                   (let agg = rename agg col ''hectareas_quemadas'' in
                    case sort_values argsort agg ''hectareas_quemadas'' ascending of
                      Inl e \<Rightarrow> Inl e
                    | Inr agg \<Rightarrow> Inr (head agg n))))"

section \<open>What the specification expects of \<open>coerce_types\<close>, cell by cell\<close>

text \<open>
  These definitions follow the specification's words, not the code. A value is missing
  or unparsable when it is missing or is text that the reader rejects. An identifier
  is parsed, \<open>-1\<close> replaces a missing or unparsable value, and the number is made a
  64-bit integer.
\<close>

fun missing_or_unparsable :: "(string \<Rightarrow> parsed option) \<Rightarrow> cell \<Rightarrow> bool" where
  "missing_or_unparsable parse NaN = True"
| "missing_or_unparsable parse (Str t) = (parse t = None)"
| "missing_or_unparsable parse x = False"

fun spec_id_cell :: "(string \<Rightarrow> parsed option) \<Rightarrow> cell \<Rightarrow> cell" where
  "spec_id_cell parse NaN = Intg (- 1)"
| "spec_id_cell parse (Intg i) = Intg i"
| "spec_id_cell parse (Flt q) = Intg (cast64 q)"
| "spec_id_cell parse (Infty s) = Infty s"
| "spec_id_cell parse (Bool b) = Intg (of_bool b)"
| "spec_id_cell parse (Str t) =
     (case parse t of
        None \<Rightarrow> Intg (- 1)
      | Some (PInt i) \<Rightarrow> Intg i
      | Some (PFlt q) \<Rightarrow> Intg (cast64 q)
      | Some (PInf s) \<Rightarrow> Infty s)"

text \<open>
  An identifier that the conversion to a 64-bit integer can take: not an infinity, and
  not text that reads as one; an integer of the 64-bit range.
\<close>

fun finite_id :: "(string \<Rightarrow> parsed option) \<Rightarrow> cell \<Rightarrow> bool" where
  "finite_id parse NaN = True"
| "finite_id parse (Intg i) = in_int64 i"
| "finite_id parse (Flt q) = True"
| "finite_id parse (Infty s) = False"
| "finite_id parse (Bool b) = True"
| "finite_id parse (Str t) =
     (case parse t of
        None \<Rightarrow> True
      | Some (PInt i) \<Rightarrow> in_int64 i
      | Some (PFlt q) \<Rightarrow> True
      | Some (PInf s) \<Rightarrow> False)"

text \<open>
  The integer a province code reads as: an integer of the 64-bit range, a float that is
  such an integer, a boolean as 0 or 1, or text that the reader reads as one of these.
\<close>

fun reads_code :: "(string \<Rightarrow> parsed option) \<Rightarrow> cell \<Rightarrow> int option" where
  "reads_code parse NaN = None"
| "reads_code parse (Intg i) = (if in_int64 i then Some i else None)"
| "reads_code parse (Flt q) =
     (if of_int (trunc q) = q \<and> in_int64 (trunc q) then Some (trunc q) else None)"
| "reads_code parse (Infty s) = None"
| "reads_code parse (Bool b) = Some (of_bool b)"
| "reads_code parse (Str t) =
     (case parse t of
        None \<Rightarrow> None
      | Some (PInt i) \<Rightarrow> if in_int64 i then Some i else None
      | Some (PFlt q) \<Rightarrow> if of_int (trunc q) = q \<and> in_int64 (trunc q) then Some (trunc q) else None
      | Some (PInf s) \<Rightarrow> None)"

definition whole_id :: "(string \<Rightarrow> parsed option) \<Rightarrow> cell \<Rightarrow> bool" where
  "whole_id parse x = (missing_or_unparsable parse x \<or> reads_code parse x \<noteq> None)"

text \<open>The identifier before \<open>-1\<close> is substituted: missing when missing or unparsable.\<close>

definition nullable_id :: "(string \<Rightarrow> parsed option) \<Rightarrow> cell \<Rightarrow> cell" where
  "nullable_id parse x = (if missing_or_unparsable parse x then NaN else spec_id_cell parse x)"

text \<open>
  A reader of plain decimal numerals and of the word \<^verbatim>\<open>inf\<close>, to instantiate the
  library's reader in examples.
\<close>

fun digits_value :: "nat \<Rightarrow> string \<Rightarrow> nat option" where
  "digits_value acc [] = Some acc"
| "digits_value acc (c # cs) =
     (if (48::nat) \<le> of_char c \<and> (of_char c :: nat) \<le> 57
      then digits_value (10 * acc + (of_char c - 48)) cs else None)"

definition decimal :: "string \<Rightarrow> parsed option" where
  "decimal s =
     (if s = ''inf'' then Some (PInf True)
      else if s = [] then None
      else (case digits_value 0 s of
              None \<Rightarrow> None
            | Some n \<Rightarrow> Some (if in_int64 (int n) then PInt (int n) else PFlt (of_nat n))))"


section \<open>The dashboard: the year and intent filter\<close>

text \<open>
  The comparisons \<^verbatim>\<open>df["anio"] >= y0\<close> and \<^verbatim>\<open>df["anio"] <= y1\<close> are \<open>ge_cell\<close> and
  \<open>le_cell\<close> cell by cell.
\<close>

text \<open>
  \<^verbatim>\<open>s == True\<close> and \<^verbatim>\<open>s == False\<close>: equality never raises; the numbers 1 and 0 equal
  \<^verbatim>\<open>True\<close> and \<^verbatim>\<open>False\<close>.
\<close>

fun eq_bool_cell :: "bool \<Rightarrow> cell \<Rightarrow> bool" where
  "eq_bool_cell v (Bool b) = (b = v)"
| "eq_bool_cell v (Intg i) = (i = of_bool v)"
| "eq_bool_cell v (Flt q) = (q = of_bool v)"
| "eq_bool_cell v NaN = False"
| "eq_bool_cell v (Infty s) = False"
| "eq_bool_cell v (Str s) = False"

definition filter_by_year_and_intent :: "table \<Rightarrow> int \<times> int \<Rightarrow> bool \<Rightarrow> bool \<Rightarrow> error + table" where
  "filter_by_year_and_intent df year_range show_intentional show_non_intentional =
     (let (y0, y1) = year_range in
      case getcol df ''anio'' of
        None \<Rightarrow> Inl (KeyError ''anio'')
      | Some anio \<Rightarrow>
     (case map_err (ge_cell y0) anio of
        Inl e \<Rightarrow> Inl e
      | Inr ge \<Rightarrow>
     (case map_err (le_cell y1) anio of
        Inl e \<Rightarrow> Inl e
      | Inr le \<Rightarrow>
          (let mask_year = map2 (\<and>) ge le in
           if show_intentional \<and> show_non_intentional then Inr (getitem_mask df mask_year)
           else if show_intentional then
             (case getcol df ''intencionado'' of
                None \<Rightarrow> Inl (KeyError ''intencionado'')
              | Some f \<Rightarrow> Inr (getitem_mask df (map2 (\<and>) mask_year (map (eq_bool_cell True) f))))
           else
             (case getcol df ''intencionado'' of
                None \<Rightarrow> Inl (KeyError ''intencionado'')
              | Some f \<Rightarrow> Inr (getitem_mask df (map2 (\<and>) mask_year (map (eq_bool_cell False) f))))))))"

text \<open>
  The two filters the specification speaks of, each on its own, written after the
  specification's words with the same library operations: rows whose year lies in
  \<open>[y0, y1]\<close>, and rows whose intent flag is selected by the two switches (both
  switches on select every row; otherwise the switch for intentional fires decides).
\<close>

definition spec_filter_year :: "table \<Rightarrow> int \<times> int \<Rightarrow> error + table" where
  "spec_filter_year df year_range =
     (case getcol df ''anio'' of
        None \<Rightarrow> Inl (KeyError ''anio'')
      | Some anio \<Rightarrow>
     (case map_err (ge_cell (fst year_range)) anio of
        Inl e \<Rightarrow> Inl e
      | Inr ge \<Rightarrow>
     (case map_err (le_cell (snd year_range)) anio of
        Inl e \<Rightarrow> Inl e
      | Inr le \<Rightarrow> Inr (getitem_mask df (map2 (\<and>) ge le)))))"

definition spec_filter_intent :: "table \<Rightarrow> bool \<Rightarrow> bool \<Rightarrow> error + table" where
  "spec_filter_intent df show_intentional show_non_intentional =
     (if show_intentional \<and> show_non_intentional then Inr df
      else case getcol df ''intencionado'' of
             None \<Rightarrow> Inl (KeyError ''intencionado'')
           | Some f \<Rightarrow> Inr (getitem_mask df (map (eq_bool_cell show_intentional) f)))"

text \<open>The conjoined predicate on the cells of one row.\<close>

fun year_in_range :: "int \<Rightarrow> int \<Rightarrow> cell \<Rightarrow> bool" where
  "year_in_range y0 y1 (Intg i) = (y0 \<le> i \<and> i \<le> y1)"
| "year_in_range y0 y1 (Flt q) = (of_int y0 \<le> q \<and> q \<le> of_int y1)"
| "year_in_range y0 y1 (Infty s) = False"
| "year_in_range y0 y1 (Bool b) = (y0 \<le> of_bool b \<and> of_bool b \<le> y1)"
| "year_in_range y0 y1 NaN = False"
| "year_in_range y0 y1 (Str s) = False"

definition intent_selected :: "bool \<Rightarrow> bool \<Rightarrow> cell \<Rightarrow> bool" where
  "intent_selected show_intentional show_non_intentional x =
     (show_intentional \<and> show_non_intentional \<or> eq_bool_cell show_intentional x)"

text \<open>Running a second fallible step on the result of a first.\<close>

definition and_then :: "error + 'a \<Rightarrow> ('a \<Rightarrow> error + 'b) \<Rightarrow> error + 'b" where
  "and_then r f = (case r of Inl e \<Rightarrow> Inl e | Inr x \<Rightarrow> f x)"

text \<open>The rows of a frame whose position satisfies a predicate, in their order.\<close>

definition rows_where :: "table \<Rightarrow> (nat \<Rightarrow> bool) \<Rightarrow> table" where
  "rows_where df P = take_rows df (filter P [0..<nrows df])"

section \<open>geo.py\<close>

text \<open>
  A GeoJSON document as the code uses it: a collection whose member \<^verbatim>\<open>features\<close> is
  absent, \<^verbatim>\<open>null\<close> or a list of features, each feature with a member \<^verbatim>\<open>properties\<close>
  that is absent, \<^verbatim>\<open>null\<close> or a bag from keys to scalar values. Geometry and all other
  members are opaque text that the code passes through. A document is a tree: no two
  features share a property bag. A scalar is what the JSON reader yields (\<^verbatim>\<open>None\<close>, an
  integer, a float, an infinity, a string, a boolean) or, after enrichment, a NumPy
  boolean that the code stored unconverted.
\<close>

datatype json = JNull | JInt int | JFloat rat | JInf bool | JStr string | JBool bool | JNumpyBool bool

datatype 'a member = Absent | Null | Present 'a

record feature =
  properties :: "(string \<times> json) list member"
  geometry :: string

record geojson =
  features :: "feature list member"
  members :: string




text \<open>
  \<^verbatim>\<open>s.astype("Int64")\<close> on a numeric column: a missing value stays missing, an integer
  is kept, a boolean becomes 0 or 1, and a float is accepted only when the cast to a
  64-bit integer gives back the same value: a fractional part, a whole number outside
  the 64-bit range and an infinity raise \<^verbatim>\<open>TypeError\<close>.
\<close>

fun astype_Int64_cell :: "cell \<Rightarrow> error + cell" where
  "astype_Int64_cell NaN = Inr NaN"
| "astype_Int64_cell (Intg i) = Inr (Intg i)"
| "astype_Int64_cell (Flt q) =
     (if of_int (trunc q) = q \<and> in_int64 (trunc q) then Inr (Intg (trunc q)) else Inl TypeError)"
| "astype_Int64_cell (Infty s) = Inl TypeError"
| "astype_Int64_cell (Bool b) = Inr (Intg (of_bool b))"
| "astype_Int64_cell (Str s) = Inl TypeError"

definition astype_Int64 :: "cell list \<Rightarrow> error + cell list" where
  "astype_Int64 s = map_err astype_Int64_cell s"

text \<open>A scalar of the document stored in a column.\<close>

fun cell_of_json :: "json \<Rightarrow> cell" where
  "cell_of_json JNull = NaN"
| "cell_of_json (JInt i) = Intg i"
| "cell_of_json (JFloat q) = Flt q"
| "cell_of_json (JInf s) = Infty s"
| "cell_of_json (JStr s) = Str s"
| "cell_of_json (JBool b) = Bool b"
| "cell_of_json (JNumpyBool b) = Bool b"

text \<open>
  \<^verbatim>\<open>s.map(d)\<close> with a dictionary keyed by integers: a value with no entry becomes
  missing. The names of the dictionary are taken as they are; the retyping of a column
  of names that are numbers is not modelled.
\<close>

fun map_dict_cell :: "(int \<rightharpoonup> json) \<Rightarrow> cell \<Rightarrow> cell" where
  "map_dict_cell d (Intg i) = (case d i of Some v \<Rightarrow> cell_of_json v | None \<Rightarrow> NaN)"
| "map_dict_cell d (Flt q) =
     (if of_int (trunc q) = q
      then (case d (trunc q) of Some v \<Rightarrow> cell_of_json v | None \<Rightarrow> NaN) else NaN)"
| "map_dict_cell d (Bool b) = (case d (of_bool b) of Some v \<Rightarrow> cell_of_json v | None \<Rightarrow> NaN)"
| "map_dict_cell d NaN = NaN"
| "map_dict_cell d (Infty s) = NaN"
| "map_dict_cell d (Str s) = NaN"

text \<open>
  \<^verbatim>\<open>s.fillna(other)\<close> where \<open>other\<close> is what \<^verbatim>\<open>out.get(name_col)\<close> returned: a column of
  the same frame fills the missing cells position by position. When the column does not
  exist \<open>other\<close> is \<^verbatim>\<open>None\<close>: the pandas releases before 3.0 require a fill value and
  raise \<^verbatim>\<open>ValueError\<close>, and from 3.0 on the missing cells stay missing. The repository
  pins no release, so the release is the parameter \<open>strict\<close> (true before 3.0).
\<close>

definition fillna_from :: "bool \<Rightarrow> cell list \<Rightarrow> cell list option \<Rightarrow> error + cell list" where
  "fillna_from strict s other =
     (case other of
        None \<Rightarrow> if strict then Inl ValueError else Inr s
      | Some t \<Rightarrow> Inr (map2 (\<lambda>x y. if x = NaN then y else x) s t))"

definition map_province_names ::
  "(string \<Rightarrow> parsed option) \<Rightarrow> bool \<Rightarrow> table \<Rightarrow> (int \<rightharpoonup> json) \<Rightarrow> string \<Rightarrow> string
    \<Rightarrow> error + table" where
  "map_province_names parse strict df provinces_map id_col name_col =
     (let out = df in
      if id_col \<in> set (columns out) then
        (case astype_Int64 (to_numeric parse (column out id_col)) of
           Inl e \<Rightarrow> Inl e
         | Inr nullable \<Rightarrow>
        (case astype_int (fillna nullable (- 1)) of
           Inl e \<Rightarrow> Inl e
         | Inr ids \<Rightarrow>
             (let out = setitem out id_col ids in
              case fillna_from strict (map (map_dict_cell provinces_map) (column out id_col))
                               (getcol out name_col) of
                Inl e \<Rightarrow> Inl e
              | Inr names \<Rightarrow> Inr (setitem out name_col names))))
      else Inr out)"

text \<open>
  \<^verbatim>\<open>key in lookup.index\<close> and \<^verbatim>\<open>lookup.loc[key]\<close>. The index is the key column, and
  which names it accepts depends on its type: an integer index accepts integers and
  whole floats, a float index integers and floats, a boolean index booleans, and an
  index of Python objects any value but \<^verbatim>\<open>None\<close>, compared with \<^verbatim>\<open>==\<close>. A feature
  without the name property has the key \<^verbatim>\<open>None\<close>, which is in no index.
\<close>

fun typed_key :: "dtype \<Rightarrow> json \<Rightarrow> cell option" where
  "typed_key I64 (JInt i) = Some (Intg i)"
| "typed_key I64 (JFloat q) = (if of_int (trunc q) = q then Some (Intg (trunc q)) else None)"
| "typed_key F64 (JInt i) = Some (Flt (of_int i))"
| "typed_key F64 (JFloat q) = Some (Flt q)"
| "typed_key F64 (JInf s) = Some (Infty s)"
| "typed_key B (JBool b) = Some (Bool b)"
| "typed_key B (JNumpyBool b) = Some (Bool b)"
| "typed_key Obj JNull = None"
| "typed_key Obj j = Some (cell_of_json j)"
| "typed_key d j = None"

definition key_matches :: "dtype \<Rightarrow> json option \<Rightarrow> cell \<Rightarrow> bool" where
  "key_matches d key x =
     (case key of
        None \<Rightarrow> False
      | Some j \<Rightarrow> (case typed_key d j of None \<Rightarrow> False | Some k \<Rightarrow> py_eq x k))"

text \<open>The positions of the rows whose key label matches.\<close>

definition loc_rows :: "table \<Rightarrow> string \<Rightarrow> json option \<Rightarrow> nat list" where
  "loc_rows df df_key key =
     filter (\<lambda>i. key_matches (dtype_of (column df df_key)) key (column df df_key ! i))
            [0..<nrows df]"

text \<open>
  The row \<^verbatim>\<open>lookup.loc[key]\<close> of a key that one row carries is a series over the
  selected columns, of their common type: integers beside a float column come out as
  floats, and any other mixture as the objects they are. A cell of a boolean column
  comes out as a NumPy boolean.
\<close>

definition row_dtype :: "table \<Rightarrow> string list \<Rightarrow> dtype" where
  "row_dtype df sel_cols =
     (let ds = map (\<lambda>c. dtype_of (column df c)) sel_cols in
      if list_all (\<lambda>d. d = I64) ds then I64
      else if list_all (\<lambda>d. d = I64 \<or> d = F64) ds then F64
      else if list_all (\<lambda>d. d = B) ds then B
      else Obj)"

text \<open>
  What \<^verbatim>\<open>row[col]\<close> can be in \<open>enrich_geojson_with_dataframe\<close>: one value, or a series of
  two or more cells when several rows carry the key or several selected columns carry
  the label.
\<close>

datatype pyvalue = Scalar cell | NumpyBool bool | Series "cell list"

definition element :: "dtype \<Rightarrow> dtype \<Rightarrow> cell \<Rightarrow> pyvalue" where
  "element rd cd x =
     (if cd = B then NumpyBool (truth x) else if rd = F64 then Scalar (as_float x) else Scalar x)"

definition row_value :: "table \<Rightarrow> string \<Rightarrow> string list \<Rightarrow> json option \<Rightarrow> string \<Rightarrow> pyvalue" where
  "row_value df df_key sel_cols key col =
     (case loc_rows df df_key key of
        [i] \<Rightarrow> if length (filter (\<lambda>c. c = col) sel_cols) = 1
               then element (row_dtype df sel_cols) (dtype_of (column df col)) (column df col ! i)
               else Series (concat (map (\<lambda>c. if c = col then [column df col ! i] else []) sel_cols))
      | hits \<Rightarrow> Series (map (\<lambda>i. column df col ! i) hits))"

text \<open>
  \<open>_to_jsonable\<close>: \<^verbatim>\<open>pd.isna\<close> of a series is a series, and its truth value in the
  \<^verbatim>\<open>if\<close> raises \<^verbatim>\<open>ValueError\<close>. A missing value becomes \<^verbatim>\<open>None\<close>, a NumPy integer or
  float a plain number; anything else, a NumPy boolean too, is returned as it is.
\<close>

fun to_jsonable :: "pyvalue \<Rightarrow> error + json" where
  "to_jsonable (Series vs) = Inl ValueError"
| "to_jsonable (NumpyBool b) = Inr (JNumpyBool b)"
| "to_jsonable (Scalar NaN) = Inr JNull"
| "to_jsonable (Scalar (Intg i)) = Inr (JInt i)"
| "to_jsonable (Scalar (Flt q)) = Inr (JFloat q)"
| "to_jsonable (Scalar (Infty s)) = Inr (JInf s)"
| "to_jsonable (Scalar (Str s)) = Inr (JStr s)"
| "to_jsonable (Scalar (Bool b)) = Inr (JBool b)"

text \<open>
  The two inner loops over the columns to copy, acting on the property bag of one feature.
  The first stops at the exception, keeping what it has written.
\<close>

fun copy_cols :: "(string \<Rightarrow> pyvalue) \<Rightarrow> string list \<Rightarrow> (string \<times> json) list
    \<Rightarrow> error option \<times> (string \<times> json) list" where
  "copy_cols row [] props = (None, props)"
| "copy_cols row (col # cs) props =
     (case to_jsonable (row col) of
        Inl e \<Rightarrow> (Some e, props)
      | Inr v \<Rightarrow> copy_cols row cs (AList.update col v props))"

fun null_cols :: "string list \<Rightarrow> (string \<times> json) list \<Rightarrow> (string \<times> json) list" where
  "null_cols [] props = props"
| "null_cols (col # cs) props = null_cols cs (AList.update col JNull props)"

text \<open>
  The body of the loop over the features, on one feature. \<^verbatim>\<open>setdefault\<close> gives a
  feature without \<^verbatim>\<open>properties\<close> an empty bag; when \<^verbatim>\<open>properties\<close> is \<^verbatim>\<open>null\<close> it
  returns \<^verbatim>\<open>None\<close>, and \<^verbatim>\<open>props.get\<close> raises \<^verbatim>\<open>AttributeError\<close>.
\<close>

definition enrich_feature ::
  "table \<Rightarrow> string \<Rightarrow> string \<Rightarrow> string list \<Rightarrow> feature \<Rightarrow> error option \<times> feature" where
  "enrich_feature df geo_name_field df_key sel_cols feat =
     (case properties feat of
        Null \<Rightarrow> (Some AttributeError, feat)
      | Absent \<Rightarrow> (None, feat\<lparr>properties := Present (null_cols sel_cols [])\<rparr>)
      | Present props \<Rightarrow>
          (let key = map_of props geo_name_field
           in if loc_rows df df_key key \<noteq> []
              then (case copy_cols (row_value df df_key sel_cols key) sel_cols props of
                      (status, props') \<Rightarrow> (status, feat\<lparr>properties := Present props'\<rparr>))
              else (None, feat\<lparr>properties := Present (null_cols sel_cols props)\<rparr>)))"

text \<open>The loop over the features: it stops at the first exception.\<close>

fun enrich_features ::
  "table \<Rightarrow> string \<Rightarrow> string \<Rightarrow> string list \<Rightarrow> feature list \<Rightarrow> error option \<times> feature list" where
  "enrich_features df geo_name_field df_key sel_cols [] = (None, [])"
| "enrich_features df geo_name_field df_key sel_cols (feat # feats) =
     (case enrich_feature df geo_name_field df_key sel_cols feat of
        (Some e, feat') \<Rightarrow> (Some e, feat' # feats)
      | (None, feat') \<Rightarrow>
          (case enrich_features df geo_name_field df_key sel_cols feats of
             (status, feats') \<Rightarrow> (status, feat' # feats')))"

text \<open>
  The body of \<open>enrich_geojson_with_dataframe\<close> after \<open>gj\<close> is bound, acting on the
  object \<open>gj\<close> names: the exception raised, if any, and the object's value afterwards.
  \<^verbatim>\<open>set_index\<close> raises \<^verbatim>\<open>KeyError\<close> when the key column does not exist.
\<close>

definition cols_to_copy :: "table \<Rightarrow> string \<Rightarrow> string list option \<Rightarrow> string list" where
  "cols_to_copy df df_key columns_arg =
     (case columns_arg of
        None \<Rightarrow> filter (\<lambda>c. c \<noteq> df_key) (columns df)
      | Some cs \<Rightarrow> filter (\<lambda>c. c \<in> set (columns df) \<and> c \<noteq> df_key) cs)"

definition enrich_in_place ::
  "table \<Rightarrow> geojson \<Rightarrow> string \<Rightarrow> string \<Rightarrow> string list option \<Rightarrow> error option \<times> geojson" where
  "enrich_in_place df gj geo_name_field df_key columns_arg =
     (let sel_cols = cols_to_copy df df_key columns_arg
      in if df_key \<notin> set (columns df)
         then (Some (KeyError (''None of '' @ repr_list [df_key] @ '' are in the columns'')), gj)
         else (case features gj of
                 Absent \<Rightarrow> (None, gj)
               | Null \<Rightarrow> (Some TypeError, gj)
               | Present feats \<Rightarrow>
                   (case enrich_features df geo_name_field df_key sel_cols feats of
                      (status, feats') \<Rightarrow> (status, gj\<lparr>features := Present feats'\<rparr>))))"

section \<open>What the specification expects of the geographic operations\<close>

text \<open>
  After the specification's words: a copied value is a plain number for a number and
  the explicit null for a missing value; text and booleans are themselves.
\<close>

fun json_of_cell :: "cell \<Rightarrow> json" where
  "json_of_cell NaN = JNull"
| "json_of_cell (Intg i) = JInt i"
| "json_of_cell (Flt q) = JFloat q"
| "json_of_cell (Infty s) = JInf s"
| "json_of_cell (Str s) = JStr s"
| "json_of_cell (Bool b) = JBool b"






section \<open>Objects and references\<close>

text \<open>
  Frames and GeoJSON documents are mutable objects. A heap holds the objects allocated
  so far; a reference is a position in it. \<^verbatim>\<open>df.copy()\<close> and \<^verbatim>\<open>deepcopy(gj)\<close> allocate
  a new object with the same value, \<^verbatim>\<open>df[present]\<close> allocates the sub-frame, and an
  assignment \<^verbatim>\<open>out[c] = v\<close> or \<^verbatim>\<open>props[c] = v\<close> changes the object that \<open>out\<close> or the
  enclosing document refers to. Every function below takes the heap and returns the
  heap it leaves, with the reference it returns or the exception it raises.
\<close>

type_synonym ref = nat

record heap =
  frames :: "table list"
  geos :: "geojson list"

definition frame_new :: "heap \<Rightarrow> table \<Rightarrow> ref \<times> heap" where
  "frame_new h t = (length (frames h), h\<lparr>frames := frames h @ [t]\<rparr>)"

definition frame_copy :: "heap \<Rightarrow> ref \<Rightarrow> ref \<times> heap" where
  "frame_copy h r = frame_new h (frames h ! r)"

definition frame_store :: "heap \<Rightarrow> ref \<Rightarrow> table \<Rightarrow> heap" where
  "frame_store h r t = h\<lparr>frames := (frames h)[r := t]\<rparr>"

definition deepcopy :: "heap \<Rightarrow> ref \<Rightarrow> ref \<times> heap" where
  "deepcopy h r = (length (geos h), h\<lparr>geos := geos h @ [geos h ! r]\<rparr>)"

definition geo_store :: "heap \<Rightarrow> ref \<Rightarrow> geojson \<Rightarrow> heap" where
  "geo_store h r g = h\<lparr>geos := (geos h)[r := g]\<rparr>"

text \<open>
  The functions of \<open>cleaning.py\<close> on references. Each works on \<open>out\<close>, the copy it made,
  and stores there the value the assignments produce; when an exception is raised
  before the first assignment, \<open>out\<close> is left as copied.
\<close>

definition select_columns_h :: "heap \<Rightarrow> ref \<Rightarrow> string list option \<Rightarrow> (error + ref) \<times> heap" where
  "select_columns_h h df columns_arg =
     (let (sub, h) = frame_new h (select_columns (frames h ! df) columns_arg);
          (out, h) = frame_copy h sub
      in (Inr out, h))"

definition flag_intentional_h ::
  "heap \<Rightarrow> ref \<Rightarrow> string \<Rightarrow> string \<Rightarrow> int \<Rightarrow> int \<Rightarrow> (error + ref) \<times> heap" where
  "flag_intentional_h h df causa_col out_col lower upper =
     (let (out, h) = frame_copy h df in
      case flag_intentional (frames h ! out) causa_col out_col lower upper of
        Inl e \<Rightarrow> (Inl e, h)
      | Inr t \<Rightarrow> (Inr out, frame_store h out t))"

definition coerce_types_h :: "(string \<Rightarrow> parsed option) \<Rightarrow> heap \<Rightarrow> ref \<Rightarrow> (error + ref) \<times> heap" where
  "coerce_types_h parse h df =
     (let (out, h) = frame_copy h df in
      case coerce_types parse (frames h ! out) of
        Inl e \<Rightarrow> (Inl e, h)
      | Inr t \<Rightarrow> (Inr out, frame_store h out t))"

definition add_hectareas_alias_h :: "heap \<Rightarrow> ref \<Rightarrow> string \<Rightarrow> string \<Rightarrow> (error + ref) \<times> heap" where
  "add_hectareas_alias_h h df source target =
     (let (out, h) = frame_copy h df in
      (Inr out, frame_store h out (add_hectareas_alias (frames h ! out) source target)))"

definition prepare_wildfires_h ::
  "(string \<Rightarrow> parsed option) \<Rightarrow> heap \<Rightarrow> ref \<Rightarrow> string list option \<Rightarrow> (error + ref) \<times> heap" where
  "prepare_wildfires_h parse h df_raw columns_arg =
     (case select_columns_h h df_raw columns_arg of
        (Inl e, h) \<Rightarrow> (Inl e, h)
      | (Inr df, h) \<Rightarrow>
     (case flag_intentional_h h df ''idcausa'' ''intencionado'' 400 499 of
        (Inl e, h) \<Rightarrow> (Inl e, h)
      | (Inr df, h) \<Rightarrow>
     (case coerce_types_h parse h df of
        (Inl e, h) \<Rightarrow> (Inl e, h)
      | (Inr df, h) \<Rightarrow> add_hectareas_alias_h h df ''perdidassuperficiales'' ''hectareas_quemadas'')))"

text \<open>
  \<open>enrich_geojson_with_dataframe\<close> on references: \<open>gj\<close> is a deep copy of the caller's
  document or, with \<open>deepcopy_geo = False\<close>, the caller's document itself. The loop
  changes the document \<open>gj\<close> refers to, also when it ends in an exception.
\<close>

definition enrich_geojson_with_dataframe_h ::
  "heap \<Rightarrow> ref \<Rightarrow> ref \<Rightarrow> string \<Rightarrow> string \<Rightarrow> string list option \<Rightarrow> bool \<Rightarrow> (error + ref) \<times> heap" where
  "enrich_geojson_with_dataframe_h h df geojson_ref geo_name_field df_key columns_arg deepcopy_geo =
     (let (gj, h) = (if deepcopy_geo then deepcopy h geojson_ref else (geojson_ref, h)) in
      case enrich_in_place (frames h ! df) (geos h ! gj) geo_name_field df_key columns_arg of
        (None, g) \<Rightarrow> (Inr gj, geo_store h gj g)
      | (Some e, g) \<Rightarrow> (Inl e, geo_store h gj g))"

text \<open>The document \<open>enrich_geojson_with_dataframe\<close> returns, as a value.\<close>

definition enrich_geojson_with_dataframe ::
  "table \<Rightarrow> geojson \<Rightarrow> string \<Rightarrow> string \<Rightarrow> string list option \<Rightarrow> error + geojson" where
  "enrich_geojson_with_dataframe df gj geo_name_field df_key columns_arg =
     (case enrich_in_place df gj geo_name_field df_key columns_arg of
        (None, g) \<Rightarrow> Inr g
      | (Some e, g) \<Rightarrow> Inl e)"

text \<open>
  Every object of the heap \<open>h\<close> is still there in \<open>h'\<close> and has the value it had:
  nothing that existed was changed in place.
\<close>

definition preserved :: "heap \<Rightarrow> heap \<Rightarrow> bool" where
  "preserved h h' =
     (length (frames h) \<le> length (frames h') \<and> length (geos h) \<le> length (geos h') \<and>
      (\<forall>r<length (frames h). frames h' ! r = frames h ! r) \<and>
      (\<forall>r<length (geos h). geos h' ! r = geos h ! r))"

section \<open>Basic facts about frames and columns\<close>

lemma getcol_setitem: "getcol (setitem df c vs) c' = (if c' = c then Some vs else getcol df c')"
  by (simp add: getcol_def setitem_def AList.update_conv')


lemma in_columns_getcol: "c \<in> set (columns df) \<longleftrightarrow> getcol df c \<noteq> None"
  by (auto simp add: columns_def getcol_def map_of_eq_None_iff)

lemma column_getcol: "getcol df c = Some s \<Longrightarrow> column df c = s"
  by (simp add: column_def)

lemma length_map_err: "map_err f xs = Inr ys \<Longrightarrow> length ys = length xs"
  by (induction xs arbitrary: ys) (auto split: sum.splits)

lemma nth_map_err: "map_err f xs = Inr ys \<Longrightarrow> i < length xs \<Longrightarrow> f (xs ! i) = Inr (ys ! i)"
proof (induction xs arbitrary: ys i)
  case Nil
  then show ?case by simp
next
  case (Cons x xs)
  then show ?case by (cases i) (auto split: sum.splits)
qed

lemma map_err_total:
  "(\<And>x. x \<in> set xs \<Longrightarrow> \<exists>y. f x = Inr y) \<Longrightarrow> \<exists>ys. map_err f xs = Inr ys"
proof (induction xs)
  case Nil
  then show ?case by simp
next
  case (Cons x xs)
  then obtain y ys where "f x = Inr y" "map_err f xs = Inr ys"
    by (meson list.set_intros)
  then show ?case by simp
qed

lemma map_err_eq_map: "(\<And>x. x \<in> set xs \<Longrightarrow> f x = Inr (g x)) \<Longrightarrow> map_err f xs = Inr (map g xs)"
  by (induction xs) auto

lemma columns_setitem: "c \<in> set (columns df) \<Longrightarrow> columns (setitem df c vs) = columns df"
  by (simp add: columns_def setitem_def update_keys map_of_eq_None_iff)

lemma in_columns_setitem: "c' \<in> set (columns (setitem df c vs)) \<longleftrightarrow> c' = c \<or> c' \<in> set (columns df)"
  by (auto simp add: in_columns_getcol getcol_setitem)

section \<open>The intent flag\<close>





section \<open>Missing resource columns\<close>

text \<open>
  C2. When one or more of the three resource columns is missing, \<open>add_total_resources\<close>,
  \<open>group_by_province_for_map\<close> and \<open>aggregate_resources_by_year\<close> each raise a
  \<^verbatim>\<open>KeyError\<close> whose message lists exactly the missing resource columns; being an
  error, the result carries no aggregate.
\<close>

theorem missing_resource_columns:
  assumes "\<exists>c\<in>set RESOURCE_COLUMNS. c \<notin> set (columns df)"
  shows "add_total_resources df =
           Inl (KeyError (''Faltan columnas de recursos: ''
                          @ repr_list (filter (\<lambda>c. c \<notin> set (columns df)) RESOURCE_COLUMNS))) \<and>
         group_by_province_for_map df province_col =
           Inl (KeyError ((if ''total_medios'' \<in> set (columns df)
                           then ''Faltan columnas de recursos para agregar por provincia: ''
                           else ''Faltan columnas de recursos: '')
                          @ repr_list (filter (\<lambda>c. c \<notin> set (columns df)) RESOURCE_COLUMNS))) \<and>
         aggregate_resources_by_year df year_col RESOURCE_COLUMNS =
           Inl (KeyError (''Faltan columnas de recursos para agregar por a'' @ [CHR 0xC3, CHR 0xB1]
                          @ ''o: '' @ repr_list (filter (\<lambda>c. c \<notin> set (columns df)) RESOURCE_COLUMNS)))"
proof -
  from assms have ne: "filter (\<lambda>c. c \<notin> set (columns df)) RESOURCE_COLUMNS \<noteq> []"
    by (simp add: filter_empty_conv)
  have a: "add_total_resources df =
           Inl (KeyError (''Faltan columnas de recursos: ''
                          @ repr_list (filter (\<lambda>c. c \<notin> set (columns df)) RESOURCE_COLUMNS)))"
    using ne by (simp add: add_total_resources_def Let_def)
  have g: "group_by_province_for_map df province_col =
           Inl (KeyError ((if ''total_medios'' \<in> set (columns df)
                           then ''Faltan columnas de recursos para agregar por provincia: ''
                           else ''Faltan columnas de recursos: '')
                          @ repr_list (filter (\<lambda>c. c \<notin> set (columns df)) RESOURCE_COLUMNS)))"
    using ne a by (simp add: group_by_province_for_map_def Let_def)
  have y: "aggregate_resources_by_year df year_col RESOURCE_COLUMNS =
           Inl (KeyError (''Faltan columnas de recursos para agregar por a'' @ [CHR 0xC3, CHR 0xB1]
                          @ ''o: '' @ repr_list (filter (\<lambda>c. c \<notin> set (columns df)) RESOURCE_COLUMNS)))"
    using ne by (simp add: aggregate_resources_by_year_def Let_def)
  from a g y show ?thesis by blast
qed

theorem missing_resource_columns_witness:
  "add_total_resources \<lparr>nrows = 1, cols = [(''numeromediospesados'', [Intg 1])]\<rparr> =
     Inl (KeyError (''Faltan columnas de recursos: '' @
                    repr_list [''numeromediospersonal'', ''numeromediosaereos'']))"
  using missing_resource_columns [of "\<lparr>nrows = 1, cols = [(''numeromediospesados'', [Intg 1])]\<rparr>"]
  by (simp add: RESOURCE_COLUMNS_def columns_def)

section \<open>Reading identifiers\<close>

lemma trunc_of_int: "trunc (of_int k) = k"
  by (simp add: trunc_def)

lemma trunc_of_bool: "trunc (of_bool b) = of_bool b"
  by (simp add: trunc_def)

lemma cast64_in: "in_int64 (trunc q) \<Longrightarrow> cast64 q = trunc q"
  by (simp add: cast64_def)

lemma in_int64_of_bool: "in_int64 (of_bool b)"
  by (simp add: in_int64_def)

lemma to_numeric_cell_not_Str: "to_numeric_cell parse x \<noteq> Str t"
  by (cases x) (auto split: option.splits parsed.splits)

lemma astype_Int64_cell_whole:
  assumes "whole_id parse x"
  shows "astype_Int64_cell (as_float (to_numeric_cell parse x)) = Inr (nullable_id parse x)"
    and "astype_Int64_cell (bool_as_int (to_numeric_cell parse x)) = Inr (nullable_id parse x)"
    and "astype_Int64_cell (to_numeric_cell parse x) = Inr (nullable_id parse x)"
  using assms
  by (cases x; auto simp: whole_id_def nullable_id_def trunc_of_int trunc_of_bool cast64_in
        in_int64_of_bool split: option.splits parsed.splits if_splits)+

lemma astype_Int64_whole:
  assumes "\<forall>x\<in>set s. whole_id parse x"
  shows "astype_Int64 (to_numeric parse s) = Inr (map (nullable_id parse) s)"
proof -
  have a: "map_err astype_Int64_cell (map as_float (map (to_numeric_cell parse) s)) = Inr (map (nullable_id parse) s)"
    using assms by (induction s) (auto simp: astype_Int64_cell_whole)
  have b: "map_err astype_Int64_cell (map bool_as_int (map (to_numeric_cell parse) s)) = Inr (map (nullable_id parse) s)"
    using assms by (induction s) (auto simp: astype_Int64_cell_whole)
  have c: "map_err astype_Int64_cell (map (to_numeric_cell parse) s) = Inr (map (nullable_id parse) s)"
    using assms by (induction s) (auto simp: astype_Int64_cell_whole)
  show ?thesis
    unfolding astype_Int64_def to_numeric_def Let_def using a b c by simp
qed

lemma nullable_id_cases:
  "whole_id parse x \<Longrightarrow> nullable_id parse x = NaN \<and> spec_id_cell parse x = Intg (- 1) \<or>
     (\<exists>i. nullable_id parse x = Intg i \<and> spec_id_cell parse x = Intg i)"
  by (cases x) (auto simp: whole_id_def nullable_id_def split: option.splits parsed.splits if_splits)

lemma cast64_m1: "cast64 (- 1) = - 1"
proof -
  have "\<lceil>(- 1)::rat\<rceil> = - 1" using ceiling_of_int[of "- 1", where 'a=rat] by simp
  then show ?thesis by (simp add: cast64_def trunc_def in_int64_def)
qed

lemma astype_fill_nullable:
  assumes "\<forall>x\<in>set s. whole_id parse x"
  shows "astype_int (fillna (map (nullable_id parse) s) (- 1)) = Inr (map (spec_id_cell parse) s)"
proof -
  have "\<And>v. v = Flt (- 1) \<or> v = Intg (- 1) \<Longrightarrow>
     map_err astype_int_cell (map (\<lambda>x. if x = NaN then v else x) (map (nullable_id parse) s))
       = Inr (map (spec_id_cell parse) s)"
    using assms
  proof (induction s)
    case Nil
    then show ?case by simp
  next
    case (Cons a s)
    from Cons.prems have "whole_id parse a" by simp
    from nullable_id_cases[OF this] Cons show ?case
      by (auto simp: cast64_m1)
  qed
  then show ?thesis
    unfolding astype_int_def fillna_def by (simp add: of_rat_minus)
qed

section \<open>The year and intent filter\<close>

lemma getcol_take_rows:
  "getcol (take_rows df idx) c = map_option (\<lambda>vs. map (nth vs) idx) (getcol df c)"
  by (simp add: getcol_def take_rows_def map_of_map)

lemma nrows_take_rows: "nrows (take_rows df idx) = length idx"
  by (simp add: take_rows_def)

lemma take_rows_twice:
  "\<forall>j\<in>set idx2. j < length idx \<Longrightarrow>
   take_rows (take_rows df idx) idx2 = take_rows df (map (nth idx) idx2)"
  by (auto simp add: take_rows_def)

lemma map_nth_filter:
  "map (nth xs) (filter (\<lambda>j. Q (xs ! j)) [0..<length xs]) = filter Q xs"
proof -
  have "filter Q (map (nth xs) [0..<length xs]) = map (nth xs) (filter (Q \<circ> nth xs) [0..<length xs])"
    by (rule filter_map)
  then show ?thesis by (simp add: map_nth comp_def)
qed

lemma mask_twice:
  "take_rows (take_rows df (filter P [0..<n]))
       (filter (\<lambda>j. Q (filter P [0..<n] ! j)) [0..<length (filter P [0..<n])])
   = take_rows df (filter (\<lambda>i. P i \<and> Q i) [0..<n])"
proof -
  let ?xs = "filter P [0..<n]"
  have "take_rows (take_rows df ?xs) (filter (\<lambda>j. Q (?xs ! j)) [0..<length ?xs])
        = take_rows df (map (nth ?xs) (filter (\<lambda>j. Q (?xs ! j)) [0..<length ?xs]))"
    by (rule take_rows_twice) auto
  also have "map (nth ?xs) (filter (\<lambda>j. Q (?xs ! j)) [0..<length ?xs]) = filter Q ?xs"
    by (rule map_nth_filter)
  also have "filter Q ?xs = filter (\<lambda>i. P i \<and> Q i) [0..<n]"
    by (simp add: conj_commute)
  finally show ?thesis .
qed



lemma wf_lengths: "wf_table df \<Longrightarrow> getcol df c = Some vs \<Longrightarrow> length vs = nrows df"
  by (auto simp add: wf_table_def getcol_def list_all_iff dest!: map_of_SomeD)

lemma wf_take_rows: "wf_table df \<Longrightarrow> wf_table (take_rows df idx)"
  by (auto simp add: wf_table_def take_rows_def columns_def list_all_iff comp_def split_def)

lemma take_rows_all: "wf_table df \<Longrightarrow> take_rows df [0..<nrows df] = df"
proof -
  assume wf: "wf_table df"
  have "map (\<lambda>(c, vs). (c, map (nth vs) [0..<nrows df])) (cols df) = map (\<lambda>p. p) (cols df)"
  proof (rule map_cong[OF refl])
    fix p assume "p \<in> set (cols df)"
    with wf have "length (snd p) = nrows df" by (auto simp: wf_table_def list_all_iff)
    then show "(case p of (c, vs) \<Rightarrow> (c, map (nth vs) [0..<nrows df])) = p"
      using map_nth[of "snd p"] by (cases p) auto
  qed
  then show ?thesis by (simp add: take_rows_def)
qed

lemma rows_where_True: "wf_table df \<Longrightarrow> rows_where df (\<lambda>i. True) = df"
  by (simp add: rows_where_def take_rows_all)

lemma getitem_mask_map:
  "length xs = nrows df \<Longrightarrow> getitem_mask df (map g xs) = rows_where df (\<lambda>i. g (xs ! i))"
  unfolding getitem_mask_def rows_where_def
  by (rule arg_cong[where f="take_rows df"], rule filter_cong) auto

lemma getitem_mask_map2:
  "length xs = nrows df \<Longrightarrow> length ys = nrows df \<Longrightarrow>
   getitem_mask df (map2 (\<and>) (map g xs) (map h ys)) = rows_where df (\<lambda>i. g (xs ! i) \<and> h (ys ! i))"
  unfolding getitem_mask_def rows_where_def
  by (rule arg_cong[where f="take_rows df"], rule filter_cong) auto

lemma year_mask:
  assumes "\<forall>x\<in>set a. \<forall>t. x \<noteq> Str t"
  shows "map_err (ge_cell y0) a = Inr (map (\<lambda>x. case ge_cell y0 x of Inr b \<Rightarrow> b | Inl e \<Rightarrow> False) a)"
    and "map_err (le_cell y1) a = Inr (map (\<lambda>x. case le_cell y1 x of Inr b \<Rightarrow> b | Inl e \<Rightarrow> False) a)"
proof -
  have "\<And>x. x \<in> set a \<Longrightarrow> ge_cell y0 x = Inr (case ge_cell y0 x of Inr b \<Rightarrow> b | Inl e \<Rightarrow> False)"
    subgoal for x using assms by (cases x) auto
    done
  then show "map_err (ge_cell y0) a = Inr (map (\<lambda>x. case ge_cell y0 x of Inr b \<Rightarrow> b | Inl e \<Rightarrow> False) a)"
    by (rule map_err_eq_map)
  have "\<And>x. x \<in> set a \<Longrightarrow> le_cell y1 x = Inr (case le_cell y1 x of Inr b \<Rightarrow> b | Inl e \<Rightarrow> False)"
    subgoal for x using assms by (cases x) auto
    done
  then show "map_err (le_cell y1) a = Inr (map (\<lambda>x. case le_cell y1 x of Inr b \<Rightarrow> b | Inl e \<Rightarrow> False) a)"
    by (rule map_err_eq_map)
qed

lemma year_conj:
  "map2 (\<and>) (map (\<lambda>x. case ge_cell y0 x of Inr b \<Rightarrow> b | Inl e \<Rightarrow> False) a)
             (map (\<lambda>x. case le_cell y1 x of Inr b \<Rightarrow> b | Inl e \<Rightarrow> False) a)
   = map (year_in_range y0 y1) a"
proof (induction a)
  case Nil
  then show ?case by simp
next
  case (Cons x a)
  then show ?case by (cases x) auto
qed

lemma spec_filter_year_closed:
  assumes "wf_table df" "getcol df ''anio'' = Some a" "\<forall>x\<in>set a. \<forall>t. x \<noteq> Str t"
  shows "spec_filter_year df (y0, y1) = Inr (rows_where df (\<lambda>i. year_in_range y0 y1 (a ! i)))"
proof -
  have len: "length a = nrows df" using assms wf_lengths by blast
  show ?thesis
    using assms(2) len
    by (simp add: spec_filter_year_def year_mask[OF assms(3)] year_conj getitem_mask_map)
qed

lemma spec_filter_intent_closed:
  assumes "wf_table df" "si \<and> sni \<or> getcol df ''intencionado'' = Some f"
  shows "spec_filter_intent df si sni = Inr (rows_where df (\<lambda>i. intent_selected si sni (f ! i)))"
proof (cases "si \<and> sni")
  case True
  then show ?thesis using assms(1)
    by (simp add: spec_filter_intent_def intent_selected_def rows_where_True)
next
  case False
  with assms have f: "getcol df ''intencionado'' = Some f" by blast
  then have len: "length f = nrows df" using assms wf_lengths by blast
  show ?thesis using False f len
    by (auto simp add: spec_filter_intent_def intent_selected_def getitem_mask_map)
qed

lemma filter_closed:
  assumes "wf_table df" "getcol df ''anio'' = Some a" "\<forall>x\<in>set a. \<forall>t. x \<noteq> Str t"
    "si \<and> sni \<or> getcol df ''intencionado'' = Some f"
  shows "filter_by_year_and_intent df (y0, y1) si sni =
           Inr (rows_where df (\<lambda>i. year_in_range y0 y1 (a ! i) \<and> intent_selected si sni (f ! i)))"
proof -
  have len: "length a = nrows df" using assms wf_lengths by blast
  show ?thesis
  proof (cases "si \<and> sni")
    case True
    then show ?thesis using assms(2) len
      by (simp add: filter_by_year_and_intent_def year_mask[OF assms(3)] getitem_mask_map
          year_conj intent_selected_def)
  next
    case False
    with assms have f: "getcol df ''intencionado'' = Some f" by blast
    then have lenf: "length f = nrows df" using assms wf_lengths by blast
    show ?thesis using False f assms(2) len lenf
      by (cases si) (simp_all add: filter_by_year_and_intent_def year_mask[OF assms(3)] year_conj
          getitem_mask_map2 intent_selected_def)
  qed
qed

lemma rows_where_cong: "(\<And>i. i < nrows df \<Longrightarrow> P i = Q i) \<Longrightarrow> rows_where df P = rows_where df Q"
  unfolding rows_where_def
  by (rule arg_cong[where f="take_rows df"], rule filter_cong) auto

lemma rows_where_twice:
  "rows_where (rows_where df P) (\<lambda>j. Q (filter P [0..<nrows df] ! j)) = rows_where df (\<lambda>i. P i \<and> Q i)"
  unfolding rows_where_def by (simp add: nrows_take_rows mask_twice)

lemma getcol_rows_where:
  "getcol (rows_where df P) c = map_option (\<lambda>vs. map (nth vs) (filter P [0..<nrows df])) (getcol df c)"
  by (simp add: rows_where_def getcol_take_rows)

lemma wf_rows_where: "wf_table df \<Longrightarrow> wf_table (rows_where df P)"
  by (simp add: rows_where_def wf_take_rows)

lemma nrows_rows_where: "nrows (rows_where df P) = length (filter P [0..<nrows df])"
  by (simp add: rows_where_def nrows_take_rows)

lemma year_then_intent:
  assumes wf: "wf_table df" and a: "getcol df ''anio'' = Some a"
    and ns: "\<forall>x\<in>set a. \<forall>t. x \<noteq> Str t"
    and f: "si \<and> sni \<or> getcol df ''intencionado'' = Some f"
  shows "and_then (spec_filter_year df (y0, y1)) (\<lambda>d. spec_filter_intent d si sni) =
           Inr (rows_where df (\<lambda>i. year_in_range y0 y1 (a ! i) \<and> intent_selected si sni (f ! i)))"
proof -
  let ?P = "\<lambda>i. year_in_range y0 y1 (a ! i)"
  let ?idx = "filter ?P [0..<nrows df]"
  let ?d = "rows_where df ?P"
  have lenf: "si \<and> sni \<or> length f = nrows df" using f wf wf_lengths by blast
  have f': "si \<and> sni \<or> getcol ?d ''intencionado'' = Some (map (nth f) ?idx)"
    using f by (auto simp: getcol_rows_where)
  have "spec_filter_intent ?d si sni =
          Inr (rows_where ?d (\<lambda>j. intent_selected si sni (map (nth f) ?idx ! j)))"
    by (rule spec_filter_intent_closed[OF wf_rows_where[OF wf] f'])
  also have "rows_where ?d (\<lambda>j. intent_selected si sni (map (nth f) ?idx ! j))
             = rows_where ?d (\<lambda>j. intent_selected si sni (f ! (?idx ! j)))"
    by (rule rows_where_cong) (simp add: nrows_rows_where)
  also have "\<dots> = rows_where df (\<lambda>i. ?P i \<and> intent_selected si sni (f ! i))"
    by (rule rows_where_twice)
  finally show ?thesis
    by (simp add: and_then_def spec_filter_year_closed[OF wf a ns])
qed

lemma intent_then_year:
  assumes wf: "wf_table df" and a: "getcol df ''anio'' = Some a"
    and ns: "\<forall>x\<in>set a. \<forall>t. x \<noteq> Str t"
    and f: "si \<and> sni \<or> getcol df ''intencionado'' = Some f"
  shows "and_then (spec_filter_intent df si sni) (\<lambda>d. spec_filter_year d (y0, y1)) =
           Inr (rows_where df (\<lambda>i. year_in_range y0 y1 (a ! i) \<and> intent_selected si sni (f ! i)))"
proof -
  let ?P = "\<lambda>i. intent_selected si sni (f ! i)"
  let ?idx = "filter ?P [0..<nrows df]"
  let ?d = "rows_where df ?P"
  have lena: "length a = nrows df" using a wf wf_lengths by blast
  have a': "getcol ?d ''anio'' = Some (map (nth a) ?idx)"
    using a by (simp add: getcol_rows_where)
  have ns': "\<forall>x\<in>set (map (nth a) ?idx). \<forall>t. x \<noteq> Str t"
    using ns lena by auto
  have "spec_filter_year ?d (y0, y1) =
          Inr (rows_where ?d (\<lambda>j. year_in_range y0 y1 (map (nth a) ?idx ! j)))"
    by (rule spec_filter_year_closed[OF wf_rows_where[OF wf] a' ns'])
  also have "rows_where ?d (\<lambda>j. year_in_range y0 y1 (map (nth a) ?idx ! j))
             = rows_where ?d (\<lambda>j. year_in_range y0 y1 (a ! (?idx ! j)))"
    by (rule rows_where_cong) (simp add: nrows_rows_where)
  also have "\<dots> = rows_where df (\<lambda>i. ?P i \<and> year_in_range y0 y1 (a ! i))"
    by (rule rows_where_twice)
  also have "\<dots> = rows_where df (\<lambda>i. year_in_range y0 y1 (a ! i) \<and> ?P i)"
    by (rule rows_where_cong) auto
  finally show ?thesis
    by (simp add: and_then_def spec_filter_intent_closed[OF wf f])
qed

text \<open>
  C9. On a well-formed frame whose \<open>anio\<close> column exists and holds no text, and whose
  \<open>intencionado\<close> column exists unless both switches are on, the filter returns a
  frame \<open>r\<close>; filtering by year and then by intent gives \<open>r\<close>, filtering by intent and
  then by year gives \<open>r\<close>, and \<open>r\<close> is the rows of the frame that satisfy the
  conjunction of the year predicate and the intent predicate.
\<close>

theorem filter_is_conjunction:
  assumes "wf_table df" and "''anio'' \<in> set (columns df)"
    and "\<forall>x\<in>set (column df ''anio''). \<forall>t. x \<noteq> Str t"
    and "si \<and> sni \<or> ''intencionado'' \<in> set (columns df)"
  shows "\<exists>r. filter_by_year_and_intent df (y0, y1) si sni = Inr r \<and>
           and_then (spec_filter_year df (y0, y1)) (\<lambda>d. spec_filter_intent d si sni) = Inr r \<and>
           and_then (spec_filter_intent df si sni) (\<lambda>d. spec_filter_year d (y0, y1)) = Inr r \<and>
           r = rows_where df (\<lambda>i. year_in_range y0 y1 (column df ''anio'' ! i) \<and>
                                   intent_selected si sni (column df ''intencionado'' ! i))"
proof -
  from assms(2) obtain a where a: "getcol df ''anio'' = Some a"
    by (auto simp: in_columns_getcol)
  then have ca: "column df ''anio'' = a" by (rule column_getcol)
  have f: "si \<and> sni \<or> getcol df ''intencionado'' = Some (column df ''intencionado'')"
    using assms(4) by (auto simp: in_columns_getcol column_def)
  have ns: "\<forall>x\<in>set a. \<forall>t. x \<noteq> Str t" using assms(3) ca by simp
  show ?thesis
    using filter_closed[OF assms(1) a ns f] year_then_intent[OF assms(1) a ns f]
      intent_then_year[OF assms(1) a ns f] ca
    by simp
qed

theorem filter_is_conjunction_witness:
  "and_then (spec_filter_intent
       \<lparr>nrows = 4, cols = [(''anio'', [Intg 2000, Intg 2005, NaN, Intg 2010]),
                           (''intencionado'', [Bool True, Bool False, Bool True, Bool True])]\<rparr>
       True False)
     (\<lambda>d. spec_filter_year d (2000, 2006))
   = Inr \<lparr>nrows = 1, cols = [(''anio'', [Intg 2000]), (''intencionado'', [Bool True])]\<rparr>"
proof -
  let ?T = "\<lparr>nrows = 4, cols = [(''anio'', [Intg 2000, Intg 2005, NaN, Intg 2010]),
                           (''intencionado'', [Bool True, Bool False, Bool True, Bool True])]\<rparr>"
  have ev: "filter_by_year_and_intent ?T (2000, 2006) True False
            = Inr \<lparr>nrows = 1, cols = [(''anio'', [Intg 2000]), (''intencionado'', [Bool True])]\<rparr>"
    by code_simp
  have "wf_table ?T" "''anio'' \<in> set (columns ?T)" "''intencionado'' \<in> set (columns ?T)"
    "\<forall>x\<in>set (column ?T ''anio''). \<forall>t. x \<noteq> Str t"
    by (simp_all add: wf_table_def columns_def column_def getcol_def)
  from filter_is_conjunction[OF this(1,2,4), of True False 2000 2006] this(3) ev
  show ?thesis by auto
qed

section \<open>Inputs are not changed in place\<close>

lemma preserved_refl: "preserved h h"
  by (simp add: preserved_def)

lemma preserved_trans: "preserved h1 h2 \<Longrightarrow> preserved h2 h3 \<Longrightarrow> preserved h1 h3"
  by (auto simp add: preserved_def)

lemma preserved_frame_new: "preserved h (snd (frame_new h t))"
  by (simp add: preserved_def frame_new_def nth_append)

lemma preserved_frame_copy: "preserved h (snd (frame_copy h r))"
  by (simp add: frame_copy_def preserved_frame_new)

lemma fst_frame_new: "fst (frame_new h t) = length (frames h)"
  by (simp add: frame_new_def)

lemma preserved_store_fresh:
  "preserved h h' \<Longrightarrow> length (frames h) \<le> r \<Longrightarrow> preserved h (frame_store h' r t)"
  by (auto simp add: preserved_def frame_store_def)

lemma preserved_copy_store: "preserved h (frame_store (snd (frame_copy h r)) (fst (frame_copy h r)) t)"
  by (rule preserved_store_fresh[OF preserved_frame_copy]) (simp add: frame_copy_def fst_frame_new)

lemma preserved_select_columns: "preserved h (snd (select_columns_h h df columns_arg))"
  unfolding select_columns_h_def Let_def split_def
  by (simp add: preserved_trans[OF preserved_frame_new preserved_frame_copy])

lemma preserved_flag_intentional: "preserved h (snd (flag_intentional_h h df causa_col out_col lower upper))"
  unfolding flag_intentional_h_def Let_def split_def
  by (auto split: sum.splits simp: preserved_frame_copy preserved_copy_store)

lemma preserved_coerce_types: "preserved h (snd (coerce_types_h parse h df))"
  unfolding coerce_types_h_def Let_def split_def
  by (auto split: sum.splits simp: preserved_frame_copy preserved_copy_store)

lemma preserved_add_hectareas_alias: "preserved h (snd (add_hectareas_alias_h h df source target))"
  unfolding add_hectareas_alias_h_def Let_def split_def
  by (simp add: preserved_copy_store)

lemma preserved_prepare_wildfires: "preserved h (snd (prepare_wildfires_h parse h df_raw columns_arg))"
proof -
  obtain r1 h1 where s1: "select_columns_h h df_raw columns_arg = (r1, h1)" by fastforce
  have p1: "preserved h h1" using preserved_select_columns[of h df_raw columns_arg] s1 by simp
  show ?thesis
  proof (cases r1)
    case (Inl e)
    then show ?thesis using s1 p1 by (simp add: prepare_wildfires_h_def)
  next
    case (Inr d1)
    obtain r2 h2 where s2: "flag_intentional_h h1 d1 ''idcausa'' ''intencionado'' 400 499 = (r2, h2)"
      by fastforce
    have p2: "preserved h h2"
      using preserved_flag_intentional[of h1 d1 "''idcausa''" "''intencionado''" 400 499] s2 p1
      by (auto intro: preserved_trans)
    show ?thesis
    proof (cases r2)
      case (Inl e)
      then show ?thesis using s1 s2 p2 Inr by (simp add: prepare_wildfires_h_def)
    next
      case d2: (Inr d2)
      obtain r3 h3 where s3: "coerce_types_h parse h2 d2 = (r3, h3)" by fastforce
      have p3: "preserved h h3"
        using preserved_coerce_types[of h2 parse d2] s3 p2 by (auto intro: preserved_trans)
      show ?thesis
      proof (cases r3)
        case (Inl e)
        then show ?thesis using s1 s2 s3 p3 Inr d2 by (simp add: prepare_wildfires_h_def)
      next
        case d3: (Inr d3)
        have "preserved h (snd (add_hectareas_alias_h h3 d3 ''perdidassuperficiales'' ''hectareas_quemadas''))"
          using preserved_add_hectareas_alias p3 by (blast intro: preserved_trans)
        then show ?thesis using s1 s2 s3 Inr d2 d3 by (simp add: prepare_wildfires_h_def)
      qed
    qed
  qed
qed

lemma preserved_enrich:
  "preserved h (snd (enrich_geojson_with_dataframe_h h df g geo_name_field df_key columns_arg True))"
  unfolding enrich_geojson_with_dataframe_h_def Let_def split_def
  by (auto split: option.splits prod.splits member.splits
      simp: preserved_def deepcopy_def geo_store_def nth_append)


lemma fresh_frame_copy_store:
  "fst (frame_copy h r) = length (frames h)"
  by (simp add: frame_copy_def fst_frame_new)

lemma prepare_returns_new:
  assumes "fst (prepare_wildfires_h parse h df_raw columns_arg) = Inr r"
  shows "length (frames h) \<le> r"
proof -
  obtain r1 h1 where s1: "select_columns_h h df_raw columns_arg = (r1, h1)" by fastforce
  have p1: "preserved h h1" using preserved_select_columns[of h df_raw columns_arg] s1 by simp
  from assms s1 obtain d1 where d1: "r1 = Inr d1"
    by (cases r1) (auto simp: prepare_wildfires_h_def)
  obtain r2 h2 where s2: "flag_intentional_h h1 d1 ''idcausa'' ''intencionado'' 400 499 = (r2, h2)"
    by fastforce
  have p2: "preserved h1 h2"
    using preserved_flag_intentional[of h1 d1 "''idcausa''" "''intencionado''" 400 499] s2 by simp
  from assms s1 d1 s2 obtain d2 where d2: "r2 = Inr d2"
    by (cases r2) (auto simp: prepare_wildfires_h_def)
  obtain r3 h3 where s3: "coerce_types_h parse h2 d2 = (r3, h3)" by fastforce
  have p3: "preserved h2 h3" using preserved_coerce_types[of h2 parse d2] s3 by simp
  from assms s1 d1 s2 d2 s3 obtain d3 where d3: "r3 = Inr d3"
    by (cases r3) (auto simp: prepare_wildfires_h_def)
  have "fst (add_hectareas_alias_h h3 d3 ''perdidassuperficiales'' ''hectareas_quemadas'') = Inr (length (frames h3))"
    by (simp add: add_hectareas_alias_h_def Let_def split_def fresh_frame_copy_store)
  then have "r = length (frames h3)"
    using assms s1 d1 s2 d2 s3 d3 by (simp add: prepare_wildfires_h_def)
  moreover have "length (frames h) \<le> length (frames h3)"
    using p1 p2 p3 by (simp add: preserved_def)
  ultimately show ?thesis by simp
qed

lemma enrich_returns_new:
  assumes "fst (enrich_geojson_with_dataframe_h h df g geo_name_field df_key columns_arg True) = Inr r"
  shows "r = length (geos h)"
  using assms unfolding enrich_geojson_with_dataframe_h_def Let_def split_def
  by (auto split: option.splits prod.splits member.splits simp: deepcopy_def)

text \<open>
  Without the deep copy the caller's document is the one that is changed: the store is
  not blind to assignments.
\<close>

lemma enrich_in_place_changes_argument:
  "geos (snd (enrich_geojson_with_dataframe_h
       \<lparr>frames = [\<lparr>nrows = 1, cols = [(''provincia'', [Str ''Soria'']), (''total_medios'', [Intg 5])]\<rparr>],
          geos = [\<lparr>features = Present [\<lparr>properties = Present [(''name'', JStr ''Soria'')], geometry = []\<rparr>],
                    members = []\<rparr>]\<rparr>
       0 0 ''name'' ''provincia'' None False)) ! 0
   = \<lparr>features = Present [\<lparr>properties = Present [(''name'', JStr ''Soria''), (''total_medios'', JInt 5)],
                         geometry = []\<rparr>], members = []\<rparr>"
  by code_simp

text \<open>The object a function returns holds the value its value-level form computes.\<close>

lemma enrich_h_value:
  assumes "g < length (geos h)"
  shows "case enrich_geojson_with_dataframe_h h df g geo_name_field df_key columns_arg True of
           (Inr r, h') \<Rightarrow> enrich_geojson_with_dataframe (frames h ! df) (geos h ! g) geo_name_field
                            df_key columns_arg = Inr (geos h' ! r)
         | (Inl e, h') \<Rightarrow> enrich_geojson_with_dataframe (frames h ! df) (geos h ! g) geo_name_field
                            df_key columns_arg = Inl e"
  using assms
  unfolding enrich_geojson_with_dataframe_h_def enrich_geojson_with_dataframe_def Let_def split_def
  by (auto split: option.splits prod.splits member.splits simp: deepcopy_def geo_store_def nth_append)

lemma flag_intentional_h_value:
  assumes "df < length (frames h)"
  shows "case flag_intentional_h h df causa_col out_col lower upper of
           (Inr r, h') \<Rightarrow> flag_intentional (frames h ! df) causa_col out_col lower upper = Inr (frames h' ! r)
         | (Inl e, h') \<Rightarrow> flag_intentional (frames h ! df) causa_col out_col lower upper = Inl e"
  using assms
  unfolding flag_intentional_h_def Let_def split_def frame_copy_def frame_new_def frame_store_def
  by (auto split: sum.splits simp: nth_append)

lemma coerce_types_h_value:
  assumes "df < length (frames h)"
  shows "case coerce_types_h parse h df of
           (Inr r, h') \<Rightarrow> coerce_types parse (frames h ! df) = Inr (frames h' ! r)
         | (Inl e, h') \<Rightarrow> coerce_types parse (frames h ! df) = Inl e"
  using assms
  unfolding coerce_types_h_def Let_def split_def frame_copy_def frame_new_def frame_store_def
  by (auto split: sum.splits simp: nth_append)

text \<open>
  C5. Each of \<open>select_columns\<close>, \<open>flag_intentional\<close>, \<open>coerce_types\<close>,
  \<open>add_hectareas_alias\<close> and their composition \<open>prepare_wildfires\<close> leaves every frame
  that existed before the call with the value it had, whether it returns or raises, and
  what \<open>prepare_wildfires\<close> returns is a new frame. \<open>enrich_geojson_with_dataframe\<close>
  with \<open>deepcopy_geo = True\<close> leaves every document that existed before the call,
  the caller's among them, equal to what it was, and returns a new document.
\<close>

theorem inputs_not_mutated:
  "preserved h (snd (select_columns_h h df columns_arg)) \<and>
   preserved h (snd (flag_intentional_h h df causa_col out_col lower upper)) \<and>
   preserved h (snd (coerce_types_h parse h df)) \<and>
   preserved h (snd (add_hectareas_alias_h h df source target)) \<and>
   preserved h (snd (prepare_wildfires_h parse h df columns_arg)) \<and>
   (\<forall>r. fst (prepare_wildfires_h parse h df columns_arg) = Inr r \<longrightarrow> length (frames h) \<le> r) \<and>
   preserved h (snd (enrich_geojson_with_dataframe_h h df g geo_name_field df_key columns_arg True)) \<and>
   (\<forall>r. fst (enrich_geojson_with_dataframe_h h df g geo_name_field df_key columns_arg True) = Inr r
        \<longrightarrow> r = length (geos h))"
  by (auto simp add: preserved_select_columns preserved_flag_intentional preserved_coerce_types
      preserved_add_hectareas_alias preserved_prepare_wildfires preserved_enrich
      dest: prepare_returns_new enrich_returns_new)

theorem inputs_not_mutated_witness:
  "geos (snd (enrich_geojson_with_dataframe_h
       \<lparr>frames = [\<lparr>nrows = 1, cols = [(''provincia'', [Str ''Soria'']), (''total_medios'', [Intg 5])]\<rparr>],
          geos = [\<lparr>features = Present [\<lparr>properties = Present [(''name'', JStr ''Soria'')], geometry = []\<rparr>],
                    members = []\<rparr>]\<rparr>
       0 0 ''name'' ''provincia'' None True)) ! 0
   = \<lparr>features = Present [\<lparr>properties = Present [(''name'', JStr ''Soria'')], geometry = []\<rparr>], members = []\<rparr>
   \<and> fst (enrich_geojson_with_dataframe_h
       \<lparr>frames = [\<lparr>nrows = 1, cols = [(''provincia'', [Str ''Soria'']), (''total_medios'', [Intg 5])]\<rparr>],
          geos = [\<lparr>features = Present [\<lparr>properties = Present [(''name'', JStr ''Soria'')], geometry = []\<rparr>],
                    members = []\<rparr>]\<rparr>
       0 0 ''name'' ''provincia'' None True) = Inr 1
   \<and> frames (snd (prepare_wildfires_h decimal
       \<lparr>frames = [\<lparr>nrows = 1, cols = [(''provincia'', [Str ''Soria'']), (''idcausa'', [Intg 450])]\<rparr>],
          geos = []\<rparr> 0 None)) ! 0
   = \<lparr>nrows = 1, cols = [(''provincia'', [Str ''Soria'']), (''idcausa'', [Intg 450])]\<rparr>"
proof -
  let ?h = "\<lparr>frames = [\<lparr>nrows = 1, cols = [(''provincia'', [Str ''Soria'']), (''total_medios'', [Intg 5])]\<rparr>],
          geos = [\<lparr>features = Present [\<lparr>properties = Present [(''name'', JStr ''Soria'')], geometry = []\<rparr>],
                    members = []\<rparr>]\<rparr>"
  let ?k = "\<lparr>frames = [\<lparr>nrows = 1, cols = [(''provincia'', [Str ''Soria'']), (''idcausa'', [Intg 450])]\<rparr>],
          geos = []\<rparr>"
  have r: "fst (enrich_geojson_with_dataframe_h ?h 0 0 ''name'' ''provincia'' None True) = Inr 1"
    by code_simp
  from inputs_not_mutated[of ?h 0 None "''idcausa''" "''intencionado''" 400 499 decimal
      "''perdidassuperficiales''" "''hectareas_quemadas''" 0 "''name''" "''provincia''"]
  have "preserved ?h (snd (enrich_geojson_with_dataframe_h ?h 0 0 ''name'' ''provincia'' None True))"
    by blast
  then have a: "geos (snd (enrich_geojson_with_dataframe_h ?h 0 0 ''name'' ''provincia'' None True)) ! 0
                = geos ?h ! 0"
    by (simp add: preserved_def)
  from inputs_not_mutated[of ?k 0 None "''idcausa''" "''intencionado''" 400 499 decimal
      "''perdidassuperficiales''" "''hectareas_quemadas''" 0 "''name''" "''provincia''"]
  have "preserved ?k (snd (prepare_wildfires_h decimal ?k 0 None))"
    by blast
  then have b: "frames (snd (prepare_wildfires_h decimal ?k 0 None)) ! 0 = frames ?k ! 0"
    by (simp add: preserved_def)
  from a b r show ?thesis by simp
qed

section \<open>Resolving province names\<close>





lemma map_province_names_closed:
  assumes ids: "getcol df id_col = Some ids"
    and whole: "\<forall>x\<in>set ids. whole_id parse x"
  shows "map_province_names parse strict df m id_col name_col =
           (case fillna_from strict (map (map_dict_cell m) (map (spec_id_cell parse) ids))
                   (getcol (setitem df id_col (map (spec_id_cell parse) ids)) name_col) of
              Inl e \<Rightarrow> Inl e
            | Inr names \<Rightarrow>
                Inr (setitem (setitem df id_col (map (spec_id_cell parse) ids)) name_col names))"
proof -
  have c: "column df id_col = ids" using ids by (rule column_getcol)
  have c': "column (setitem df id_col (map (spec_id_cell parse) ids)) id_col = map (spec_id_cell parse) ids"
    by (simp add: column_def getcol_setitem)
  show ?thesis
    using ids
    by (simp add: map_province_names_def Let_def in_columns_getcol c c'
        astype_Int64_whole[OF whole] astype_fill_nullable[OF whole])
qed

text \<open>
  What \<open>map_province_names\<close> does when the identifier column or the name column is
  absent, and that a row whose code has no entry keeps its name.
\<close>

lemma map_province_names_no_id_col:
  "id_col \<notin> set (columns df) \<Longrightarrow> map_province_names parse strict df m id_col name_col = Inr df"
  by (simp add: map_province_names_def)



lemma map_province_names_no_name_col:
  assumes "id_col \<in> set (columns df)" "name_col \<noteq> id_col" "name_col \<notin> set (columns df)"
    "\<forall>x\<in>set (column df id_col). whole_id parse x"
  shows "map_province_names parse True df m id_col name_col = Inl ValueError"
    and "map_province_names parse False df m id_col name_col =
           Inr (setitem (setitem df id_col (map (spec_id_cell parse) (column df id_col))) name_col
                  (map (map_dict_cell m) (map (spec_id_cell parse) (column df id_col))))"
proof -
  from assms(1) obtain ids where ids: "getcol df id_col = Some ids"
    by (auto simp: in_columns_getcol)
  then have c: "column df id_col = ids" by (rule column_getcol)
  have n: "getcol (setitem df id_col (map (spec_id_cell parse) ids)) name_col = None"
    using assms(2,3) by (simp add: getcol_setitem in_columns_getcol)
  show "map_province_names parse True df m id_col name_col = Inl ValueError"
    using map_province_names_closed[OF ids, of parse True m name_col] assms(4) c n
    by (simp add: fillna_from_def)
  show "map_province_names parse False df m id_col name_col =
           Inr (setitem (setitem df id_col (map (spec_id_cell parse) (column df id_col))) name_col
                  (map (map_dict_cell m) (map (spec_id_cell parse) (column df id_col))))"
    using map_province_names_closed[OF ids, of parse False m name_col] assms(4) c n
    by (simp add: fillna_from_def)
qed

lemma map_province_names_keeps_name:
  assumes wf: "wf_table df" and ids: "getcol df id_col = Some ids"
    and old: "getcol df name_col = Some old" and ne: "name_col \<noteq> id_col"
    and whole: "\<forall>x\<in>set ids. whole_id parse x"
  shows "\<exists>out names. map_province_names parse strict df m id_col name_col = Inr out \<and>
           getcol out id_col = Some (map (spec_id_cell parse) ids) \<and>
           getcol out name_col = Some names \<and> length names = length ids \<and>
           (\<forall>i<length ids. map_dict_cell m (spec_id_cell parse (ids ! i)) = NaN \<longrightarrow> names ! i = old ! i)"
proof -
  have o: "getcol (setitem df id_col (map (spec_id_cell parse) ids)) name_col = Some old"
    using old ne by (simp add: getcol_setitem)
  have len: "length old = length ids"
    using wf_lengths[OF wf ids] wf_lengths[OF wf old] by simp
  show ?thesis
    using map_province_names_closed[OF ids whole, of strict m name_col] len ne o
    by (simp add: getcol_setitem fillna_from_def)
qed



text \<open>
  C4. A province code with a fractional part is not truncated by \<open>map_province_names\<close>:
  the cast to the nullable integer type raises \<^verbatim>\<open>TypeError\<close>, in every pandas release,
  where \<open>coerce_types\<close> truncates the same value to 7.
\<close>

theorem map_province_names_fractional_id:
  "map_province_names decimal strict
     \<lparr>nrows = 1, cols = [(''idprovincia'', [Flt (15 / 2)]), (''provincia'', [Str ''X''])]\<rparr>
     [7 \<mapsto> JStr ''Madrid''] ''idprovincia'' ''provincia'' = Inl TypeError
   \<and> coerce_types decimal
     \<lparr>nrows = 1, cols = [(''idprovincia'', [Flt (15 / 2)]), (''provincia'', [Str ''X''])]\<rparr>
     = Inr \<lparr>nrows = 1, cols = [(''idprovincia'', [Intg 7]), (''provincia'', [Str ''X''])]\<rparr>"
  by code_simp

end
